theory Spec2Isabelle
  imports Main "HOL-Library.Product_Lexorder" "HOL-Library.Multiset"
begin

section \<open>Python values\<close>

text \<open>
  A Python \<open>str\<close> is a sequence of Unicode code points, and \<open>len\<close> counts code points;
  it is modelled as a list of naturals. \<open>ustr\<close> embeds an ASCII literal of the source.
\<close>

type_synonym pystr = "nat list"

definition ustr :: "string \<Rightarrow> pystr" where
  "ustr s = map of_char s"

text \<open>
  Exceptions the modelled code can meet, each with the text \<open>str(e)\<close> gives. \<open>Raised\<close>
  stands for an exception coming out of an external collaborator (document store,
  completion provider, SDK construction). The texts of the interpreter's own exceptions
  are abridged.
\<close>

datatype exn =
    ValueError pystr
  | IndexError pystr
  | AttributeError pystr
  | TypeError pystr
  | KeyError pystr
  | Raised pystr

fun exn_str :: "exn \<Rightarrow> pystr" where
  \<comment> \<open>\<open>str(e)\<close>\<close>
  "exn_str (ValueError t) = t"
| "exn_str (IndexError t) = t"
| "exn_str (AttributeError t) = t"
| "exn_str (TypeError t) = t"
| "exn_str (KeyError t) = t"
| "exn_str (Raised t) = t"

text \<open>
  Dynamically typed values: what \<open>json.loads\<close> returns, what the document store holds and
  what the dict literals of the source build. A dict is an association list (first
  binding of a key wins on lookup); \<open>PFloat\<close> carries an uninterpreted payload and
  \<open>PDateTime\<close> a timestamp.
\<close>

datatype pyval =
    PNone
  | PBool bool
  | PInt int
  | PFloat int int
  | PStr pystr
  | PDateTime int
  | PList "pyval list"
  | PDict "(pystr \<times> pyval) list"

type_synonym pydict = "(pystr \<times> pyval) list"

definition dict_get :: "pydict \<Rightarrow> pystr \<Rightarrow> pyval \<Rightarrow> pyval" where
  \<comment> \<open>\<open>d.get(k, dflt)\<close> on a dict\<close>
  "dict_get d k dflt = (case map_of d k of Some v \<Rightarrow> v | None \<Rightarrow> dflt)"

fun dict_set :: "pydict \<Rightarrow> pystr \<Rightarrow> pyval \<Rightarrow> pydict" where
  \<comment> \<open>\<open>d[k] = v\<close>\<close>
  "dict_set [] k v = [(k, v)]"
| "dict_set ((k', v') # d) k v = (if k' = k then (k, v) # d else (k', v') # dict_set d k v)"

fun py_get :: "pyval \<Rightarrow> pystr \<Rightarrow> pyval \<Rightarrow> exn + pyval" where
  \<comment> \<open>\<open>x.get(k, dflt)\<close> on any value: only a dict has the method\<close>
  "py_get (PDict d) k dflt = Inr (dict_get d k dflt)"
| "py_get _ k dflt = Inl (AttributeError (ustr ''object has no attribute get''))"

fun py_getitem :: "pyval \<Rightarrow> pystr \<Rightarrow> exn + pyval" where
  \<comment> \<open>\<open>x[k]\<close> with a string key\<close>
  "py_getitem (PDict d) k = (case map_of d k of Some v \<Rightarrow> Inr v | None \<Rightarrow> Inl (KeyError k))"
| "py_getitem _ k = Inl (TypeError (ustr ''indices must be integers''))"

fun py_setitem :: "pyval \<Rightarrow> pystr \<Rightarrow> pyval \<Rightarrow> exn + pyval" where
  \<comment> \<open>\<open>x[k] = v\<close> with a string key: the value after the assignment\<close>
  "py_setitem (PDict d) k v = Inr (PDict (dict_set d k v))"
| "py_setitem _ k v = Inl (TypeError (ustr ''object does not support item assignment''))"

fun truthy :: "pyval \<Rightarrow> bool" where
  "truthy PNone = False"
| "truthy (PBool b) = b"
| "truthy (PInt i) = (i \<noteq> 0)"
| "truthy (PFloat m e) = (m \<noteq> 0)"
| "truthy (PStr s) = (s \<noteq> [])"
| "truthy (PDateTime t) = True"
| "truthy (PList xs) = (xs \<noteq> [])"
| "truthy (PDict d) = (d \<noteq> [])"

definition py_or :: "pyval \<Rightarrow> pyval \<Rightarrow> pyval" where
  \<comment> \<open>\<open>x or y\<close>\<close>
  "py_or x y = (if truthy x then x else y)"

section \<open>String operations\<close>

fun startswith :: "pystr \<Rightarrow> pystr \<Rightarrow> bool" where
  \<comment> \<open>\<open>s.startswith(k)\<close>\<close>
  "startswith s [] = True"
| "startswith [] (c # k) = False"
| "startswith (d # s) (c # k) = (d = c \<and> startswith s k)"

fun str_in :: "pystr \<Rightarrow> pystr \<Rightarrow> bool" where
  \<comment> \<open>\<open>k in s\<close>: \<open>k\<close> occurs in \<open>s\<close> as a contiguous substring\<close>
  "str_in k [] = (k = [])"
| "str_in k (c # s) = (startswith (c # s) k \<or> str_in k s)"

fun replace :: "pystr \<Rightarrow> pystr \<Rightarrow> pystr" where
  \<comment> \<open>\<open>s.replace(old, "")\<close> for a non-empty \<open>old\<close>: occurrences are removed left to
      right, without overlap\<close>
  "replace old [] = []"
| "replace old (c # s) =
     (if startswith (c # s) old then replace old (drop (length old - 1) s)
      else c # replace old s)"

section \<open>The router: intent classification\<close>

text \<open>
  \<open>str.lower\<close> follows the Unicode case tables, which the repository does not hold: the
  functions that lower-case a message take the lowering as the parameter \<open>lower\<close>.
  \<open>ascii_lower\<close> is the lowering restricted to ASCII text.
\<close>

definition ascii_lower :: "pystr \<Rightarrow> pystr" where
  "ascii_lower s = map (\<lambda>c. if 65 \<le> c \<and> c \<le> 90 then c + 32 else c) s"

definition action_keywords :: "pystr list" where
  "action_keywords = map ustr
     [''create'', ''generate'', ''make'', ''show me'', ''find'', ''search'',
      ''enroll'', ''register'', ''add'', ''schedule'', ''plan'',
      ''list my'', ''what are my'', ''get my'']"

definition detect_action_intent :: "(pystr \<Rightarrow> pystr) \<Rightarrow> pystr \<Rightarrow> bool" where
  "detect_action_intent lower message =
     (let message_lower = lower message
      in list_ex (\<lambda>keyword. str_in keyword message_lower) action_keywords)"

definition route_to_agent ::
  "(pystr \<Rightarrow> pystr) \<Rightarrow> (pystr \<Rightarrow> pystr \<Rightarrow> pyval \<Rightarrow> exn + pyval) \<Rightarrow>
   (pystr \<Rightarrow> pystr \<Rightarrow> pyval \<Rightarrow> exn + pyval) \<Rightarrow> pystr \<Rightarrow> pystr \<Rightarrow> pyval \<Rightarrow> exn + pyval" where
  \<comment> \<open>\<open>study_planner\<close> and \<open>assignment_manager\<close> stand for constructing the agent and
      awaiting its \<open>process\<close>; either can raise\<close>
  "route_to_agent lower study_planner assignment_manager message user_id context =
     (let message_lower = lower message
      in if list_ex (\<lambda>word. str_in word message_lower)
              (map ustr [''study plan'', ''learning plan'', ''schedule''])
         then study_planner message user_id context
         else if list_ex (\<lambda>word. str_in word message_lower)
              (map ustr [''assignment'', ''homework'', ''task''])
         then assignment_manager message user_id context
         else Inr (PDict
           [(ustr ''response'',
               PStr (ustr ''I can help you with that! Could you provide more details?'')),
            (ustr ''actions_performed'', PList [])]))"

text \<open>
  The vocabulary the specification gives for the planner branch, to be compared with the
  one \<open>route_to_agent\<close> tests.
\<close>

definition spec_planner_vocabulary :: "pystr list" where
  "spec_planner_vocabulary = map ustr [''study'', ''learning'', ''schedule'']"

section \<open>The voice adapter\<close>

definition strip_markup :: "pystr \<Rightarrow> pystr" where
  \<comment> \<open>the five replacements of \<open>_format_for_voice\<close>; 8226 is the bullet U+2022\<close>
  "strip_markup text0 =
     (let text1 = replace (ustr ''**'') text0;
          text2 = replace (ustr ''##'') text1;
          text3 = replace (ustr ''###'') text2;
          text4 = replace [8226] text3;
          text5 = replace (ustr ''-'') text4
      in text5)"

definition format_for_voice :: "pystr \<Rightarrow> pystr" where
  "format_for_voice text0 =
     (let text5 = strip_markup text0
      in if length text5 > 500
         then take 500 text5 @ ustr ''... Would you like more details?''
         else text5)"

fun format_for_voice_val :: "pyval \<Rightarrow> exn + pyval" where
  \<comment> \<open>\<open>_format_for_voice\<close> applied to whatever \<open>result.get("response", "")\<close> gave\<close>
  "format_for_voice_val (PStr s) = Inr (PStr (format_for_voice s))"
| "format_for_voice_val (PDateTime t) = Inl (TypeError (ustr ''replace() argument''))"
| "format_for_voice_val _ = Inl (AttributeError (ustr ''object has no attribute replace''))"

definition voice_body ::
  "(pystr \<Rightarrow> pystr \<Rightarrow> pyval \<Rightarrow> exn + pyval) \<Rightarrow> int \<Rightarrow> pystr \<Rightarrow> pystr \<Rightarrow> pyval \<Rightarrow> exn + pyval" where
  \<comment> \<open>the \<open>try\<close> block of \<open>process_voice_query\<close>; \<open>chatbot\<close> is
      \<open>self.chatbot.process_message\<close>\<close>
  "voice_body chatbot utcnow query user_id context =
     (let voice_context = py_or context (PDict [])
      in case py_setitem voice_context (ustr ''input_type'') (PStr (ustr ''voice'')) of
           Inl e \<Rightarrow> Inl e
         | Inr vc1 \<Rightarrow>
        (case py_setitem vc1 (ustr ''requires_concise_response'') (PBool True) of
           Inl e \<Rightarrow> Inl e
         | Inr vc2 \<Rightarrow>
        (case chatbot query user_id vc2 of
           Inl e \<Rightarrow> Inl e
         | Inr result \<Rightarrow>
        (case py_get result (ustr ''response'') (PStr []) of
           Inl e \<Rightarrow> Inl e
         | Inr r \<Rightarrow>
        (case format_for_voice_val r of
           Inl e \<Rightarrow> Inl e
         | Inr voice_response \<Rightarrow>
        (case py_get result (ustr ''actions_taken'') (PList []) of
           Inl e \<Rightarrow> Inl e
         | Inr actions \<Rightarrow>
             Inr (PDict
               [(ustr ''success'', PBool True),
                (ustr ''response'', voice_response),
                (ustr ''actions_taken'', actions),
                (ustr ''voice_enabled'', PBool True),
                (ustr ''timestamp'', PDateTime utcnow)])))))))"

definition process_voice_query ::
  "(pystr \<Rightarrow> pystr \<Rightarrow> pyval \<Rightarrow> exn + pyval) \<Rightarrow> int \<Rightarrow> pystr \<Rightarrow> pystr \<Rightarrow> pyval \<Rightarrow> pyval" where
  "process_voice_query chatbot utcnow query user_id context =
     (case voice_body chatbot utcnow query user_id context of
        Inr r \<Rightarrow> r
      | Inl e \<Rightarrow>
          PDict
            [(ustr ''success'', PBool False),
             (ustr ''response'',
                PStr (ustr ''I'm sorry, I couldn't process your voice request. Please try again.'')),
             (ustr ''voice_enabled'', PBool True),
             (ustr ''timestamp'', PDateTime utcnow)])"

section \<open>The chatbot\<close>

function nat_digits :: "nat \<Rightarrow> pystr" where
  \<comment> \<open>the decimal digits of a natural number\<close>
  "nat_digits n = (if n < 10 then [48 + n] else nat_digits (n div 10) @ [48 + n mod 10])"
  by pat_completeness auto
termination
  by (relation "measure (\<lambda>n. n)") auto

declare nat_digits.simps [simp del]

definition str_int :: "int \<Rightarrow> pystr" where
  \<comment> \<open>\<open>str(i)\<close> of an integer, as an f-string renders it\<close>
  "str_int i = (if i < 0 then 45 # nat_digits (nat (- i)) else nat_digits (nat i))"

fun py_str :: "(pyval \<Rightarrow> pystr) \<Rightarrow> pyval \<Rightarrow> pystr" where
  \<comment> \<open>how an f-string renders a value; \<open>repr\<close> renders floats, dates, lists and dicts\<close>
  "py_str repr (PStr s) = s"
| "py_str repr PNone = ustr ''None''"
| "py_str repr (PBool b) = (if b then ustr ''True'' else ustr ''False'')"
| "py_str repr (PInt i) = str_int i"
| "py_str repr v = repr v"

definition last_n :: "nat \<Rightarrow> 'a list \<Rightarrow> 'a list" where
  \<comment> \<open>the slice \<open>xs[-n:]\<close> for a positive \<open>n\<close>\<close>
  "last_n n xs = drop (length xs - n) xs"

datatype ai_kind = OpenAI | Gemini | Anthropic

text \<open>What each provider's SDK is called with.\<close>

datatype ai_request =
    ChatCompletion "(pystr \<times> pyval) list"
  | GenerateContent pystr
  | MessagesCreate pystr "(pystr \<times> pyval) list"

record turn =
  turn_role :: pystr
  turn_content :: pyval
  turn_timestamp :: int

text \<open>The conversations collection: the messages of each (user, conversation) record.\<close>

type_synonym conversations = "pystr \<times> pystr \<Rightarrow> turn list option"

text \<open>
  What the chatbot finds around it: the runtime's string functions, the clock (\<open>cb_utcnow k\<close>
  is the reading of the k-th \<open>datetime.utcnow()\<close> call site of \<open>process_message\<close> and
  \<open>_save_to_history\<close>), the settings, the outcome of the document store's operations, the
  completion provider, and the two responders (construction and \<open>process\<close>).
\<close>

record chatbot_env =
  cb_lower :: "pystr \<Rightarrow> pystr"
  cb_title :: "pystr \<Rightarrow> pystr"
  cb_repr :: "pyval \<Rightarrow> pystr"
  cb_epoch_seconds :: "exn + int"
  cb_now_text :: pystr
  cb_utcnow :: "nat \<Rightarrow> int"
  enable_conversation_memory :: bool
  find_conversation_error :: "exn option"
  cb_find_user :: "pystr \<Rightarrow> exn + pydict option"
  update_conversation_error :: "exn option"
  cb_ai_type :: "ai_kind option"
  cb_provider :: "ai_request \<Rightarrow> exn + pystr"
  cb_study_planner :: "pystr \<Rightarrow> pystr \<Rightarrow> pyval \<Rightarrow> exn + pyval"
  cb_assignment_manager :: "pystr \<Rightarrow> pystr \<Rightarrow> pyval \<Rightarrow> exn + pyval"

definition get_conversation_history ::
  "chatbot_env \<Rightarrow> conversations \<Rightarrow> pystr \<Rightarrow> pystr \<Rightarrow> turn list" where
  "get_conversation_history E store user_id conv_id =
     (if enable_conversation_memory E then
        (case find_conversation_error E of
           Some e \<Rightarrow> []
         | None \<Rightarrow>
             (case store (user_id, conv_id) of
                Some messages \<Rightarrow> last_n 10 messages
              | None \<Rightarrow> []))
      else [])"

definition save_to_history ::
  "chatbot_env \<Rightarrow> conversations \<Rightarrow> pystr \<Rightarrow> pystr \<Rightarrow> pystr \<Rightarrow> pyval \<Rightarrow> conversations" where
  "save_to_history E store user_id conv_id message response =
     (if enable_conversation_memory E then
        (case update_conversation_error E of
           Some e \<Rightarrow> store
         | None \<Rightarrow>
             store((user_id, conv_id) \<mapsto>
               (case store (user_id, conv_id) of None \<Rightarrow> [] | Some messages \<Rightarrow> messages) @
               [\<lparr>turn_role = ustr ''user'', turn_content = PStr message,
                   turn_timestamp = cb_utcnow E 0\<rparr>,
                \<lparr>turn_role = ustr ''assistant'', turn_content = response,
                   turn_timestamp = cb_utcnow E 1\<rparr>]))
      else store)"

definition gather_context :: "chatbot_env \<Rightarrow> pystr \<Rightarrow> pyval \<Rightarrow> pyval" where
  "gather_context E user_id additional_context =
     (let context = py_or additional_context (PDict [])
      in case cb_find_user E user_id of
           Inl e \<Rightarrow> context
         | Inr user \<Rightarrow>
             (case (case user of
                      None \<Rightarrow> Inr context
                    | Some u \<Rightarrow>
                        if u = [] then Inr context
                        else py_setitem context (ustr ''user'')
                          (PDict
                            [(ustr ''name'', dict_get u (ustr ''name'') PNone),
                             (ustr ''role'', dict_get u (ustr ''role'') PNone),
                             (ustr ''department'', dict_get u (ustr ''department'') PNone),
                             (ustr ''year'', dict_get u (ustr ''year'') PNone)])) of
                Inl e \<Rightarrow> context
              | Inr context1 \<Rightarrow>
                  (case py_setitem context1 (ustr ''timestamp'') (PStr (cb_now_text E)) of
                     Inl e \<Rightarrow> context1
                   | Inr context2 \<Rightarrow> context2)))"

definition help_text :: pystr where
  "help_text = concat
     [ustr ''I'm here to help! I can assist you with:'', [10, 10],
      [128218], ustr '' **Academic:** Study plans, assignments, course information'', [10],
      [127919], ustr '' **Campus Life:** Events, navigation, facilities'', [10],
      [128202], ustr '' **Information:** Timetables, faculty details, materials'', [10],
      [129302], ustr '' **AI Features:** Intelligent agents, analytics, recommendations'',
      [10, 10],
      ustr ''What would you like help with?'']"

definition get_rule_based_response :: "chatbot_env \<Rightarrow> pystr \<Rightarrow> pyval \<Rightarrow> exn + pystr" where
  "get_rule_based_response E message context =
     (let message_lower = cb_lower E message
      in if list_ex (\<lambda>greeting. str_in greeting message_lower)
              (map ustr [''hello'', ''hi'', ''hey'', ''good morning'', ''good afternoon''])
         then (case py_get context (ustr ''user'') (PDict []) of
                 Inl e \<Rightarrow> Inl e
               | Inr user \<Rightarrow>
                   (case py_get user (ustr ''name'') (PStr (ustr ''there'')) of
                      Inl e \<Rightarrow> Inl e
                    | Inr user_name \<Rightarrow>
                        Inr (ustr ''Hello '' @ py_str (cb_repr E) user_name @ ustr ''! '' @
                             [128075] @
                             ustr '' How can I assist you today? I can help with courses, assignments, events, and more!'')))
         else if str_in (ustr ''help'') message_lower then Inr help_text
         else if list_ex (\<lambda>word. str_in word message_lower)
              (map ustr [''course'', ''class'', ''subject''])
         then Inr (ustr ''I can help you with course information, enrollment, and materials. What specific course information do you need?'')
         else if str_in (ustr ''event'') message_lower
         then Inr (ustr ''Looking for campus events? I can show you upcoming events, help you register, and provide event details. What would you like to know?'')
         else Inr (concat
           [ustr ''I understand you're asking about: '', [34], message, [34], [10, 10],
            ustr ''I can help you with various campus-related queries. Could you provide more specific details or try asking about:'', [10],
            [8226], ustr '' Courses and enrollment'', [10],
            [8226], ustr '' Study materials and resources'', [10],
            [8226], ustr '' Campus events and activities'', [10],
            [8226], ustr '' Your timetable and schedule'', [10],
            [8226], ustr '' Assignments and deadlines'', [10, 10],
            ustr ''What would you like to know more about?'']))"

definition chatbot_system_prompt :: "chatbot_env \<Rightarrow> pyval \<Rightarrow> exn + pystr" where
  "chatbot_system_prompt E context =
     (case py_get context (ustr ''user'') (PDict []) of
        Inl e \<Rightarrow> Inl e
      | Inr user \<Rightarrow>
     (case py_get user (ustr ''name'') (PStr (ustr ''Student'')) of
        Inl e \<Rightarrow> Inl e
      | Inr name \<Rightarrow>
     (case py_get user (ustr ''role'') (PStr (ustr ''student'')) of
        Inl e \<Rightarrow> Inl e
      | Inr role \<Rightarrow>
     (case py_get context (ustr ''timestamp'') (PStr (ustr ''now'')) of
        Inl e \<Rightarrow> Inl e
      | Inr time \<Rightarrow>
          Inr (concat
            [ustr ''You are CampusCompanion AI, a helpful and friendly campus assistant.'',
             [10, 10],
             ustr ''Current Context:'', [10],
             ustr ''- User: '', py_str (cb_repr E) name, [10],
             ustr ''- Role: '', py_str (cb_repr E) role, [10],
             ustr ''- Time: '', py_str (cb_repr E) time, [10, 10],
             ustr ''Guidelines:'', [10],
             ustr ''- Be conversational and natural (like ChatGPT)'', [10],
             ustr ''- Don't repeat previous responses'', [10],
             ustr ''- Provide helpful, accurate information'', [10],
             ustr ''- If you don't know something, admit it'', [10],
             ustr ''- Keep responses concise but informative'', [10],
             ustr ''- Use emojis sparingly and appropriately''])))))"

definition turn_message :: "turn \<Rightarrow> pystr \<times> pyval" where
  \<comment> \<open>\<open>{"role": msg["role"], "content": msg["content"]}\<close>\<close>
  "turn_message msg = (turn_role msg, turn_content msg)"

definition build_request ::
  "chatbot_env \<Rightarrow> ai_kind \<Rightarrow> pystr \<Rightarrow> turn list \<Rightarrow> pystr \<Rightarrow> ai_request" where
  \<comment> \<open>what \<open>_generate_conversational_response\<close> sends, per provider\<close>
  "build_request E kind prompt history message =
     (case kind of
        OpenAI \<Rightarrow>
          ChatCompletion
            ([(ustr ''system'', PStr prompt)] @ map turn_message (last_n 6 history) @
             [(ustr ''user'', PStr message)])
      | Gemini \<Rightarrow>
          GenerateContent
            (prompt @ [10, 10] @ ustr ''Conversation History:'' @ [10] @
             concat (map (\<lambda>msg. cb_title E (turn_role msg) @ ustr '': '' @
                               py_str (cb_repr E) (turn_content msg) @ [10])
                       (last_n 4 history)) @
             [10] @ ustr ''User: '' @ message @ [10] @ ustr ''Assistant:'')
      | Anthropic \<Rightarrow>
          MessagesCreate prompt
            (map turn_message (last_n 6 history) @ [(ustr ''user'', PStr message)]))"

definition generate_conversational_response ::
  "chatbot_env \<Rightarrow> pystr \<Rightarrow> turn list \<Rightarrow> pyval \<Rightarrow> exn + pystr" where
  "generate_conversational_response E message history context =
     (case cb_ai_type E of
        None \<Rightarrow> get_rule_based_response E message context
      | Some kind \<Rightarrow>
          (case (case chatbot_system_prompt E context of
                   Inl e \<Rightarrow> Inl e
                 | Inr prompt \<Rightarrow> cb_provider E (build_request E kind prompt history message)) of
             Inl e \<Rightarrow> get_rule_based_response E message context
           | Inr text \<Rightarrow> Inr text))"

definition resolve_conversation_id :: "chatbot_env \<Rightarrow> pystr \<Rightarrow> pystr option \<Rightarrow> exn + pystr" where
  \<comment> \<open>\<open>conversation_id or f"{user_id}_{int(datetime.now().timestamp())}"\<close>\<close>
  "resolve_conversation_id E user_id conversation_id =
     (if conversation_id \<noteq> None \<and> conversation_id \<noteq> Some []
      then Inr (the conversation_id)
      else (case cb_epoch_seconds E of
              Inl e \<Rightarrow> Inl e
            | Inr t \<Rightarrow> Inr (user_id @ ustr ''_'' @ str_int t)))"

definition failure_envelope :: "chatbot_env \<Rightarrow> pystr option \<Rightarrow> pyval" where
  \<comment> \<open>what the \<open>except\<close> branch of \<open>process_message\<close> returns\<close>
  "failure_envelope E conv_id =
     PDict
       [(ustr ''success'', PBool False),
        (ustr ''response'',
           PStr (ustr ''I apologize, but I encountered an error. Please try again.'')),
        (ustr ''conversation_id'', (case conv_id of Some c \<Rightarrow> PStr c | None \<Rightarrow> PNone)),
        (ustr ''timestamp'', PDateTime (cb_utcnow E 5))]"

definition message_steps ::
  "chatbot_env \<Rightarrow> conversations \<Rightarrow> pystr \<Rightarrow> pystr \<Rightarrow> pyval \<Rightarrow> pystr \<Rightarrow>
   (exn + pyval) \<times> conversations" where
  \<comment> \<open>the \<open>try\<close> block of \<open>process_message\<close> once \<open>conv_id\<close> is bound\<close>
  "message_steps E store message user_id context conv_id =
     (let conversation_history = get_conversation_history E store user_id conv_id;
          full_context = gather_context E user_id context;
          action_needed = detect_action_intent (cb_lower E) message
      in case (if action_needed then
                 (case route_to_agent (cb_lower E) (cb_study_planner E) (cb_assignment_manager E)
                         message user_id full_context of
                    Inl e \<Rightarrow> Inl e
                  | Inr response_data \<Rightarrow>
                      (case py_get response_data (ustr ''response'')
                              (PStr (ustr ''Action completed!'')) of
                         Inl e \<Rightarrow> Inl e
                       | Inr response_text \<Rightarrow> Inr (response_text, Some response_data)))
               else
                 (case generate_conversational_response E message conversation_history
                         full_context of
                    Inl e \<Rightarrow> Inl e
                  | Inr text \<Rightarrow> Inr (PStr text, None))) of
           Inl e \<Rightarrow> (Inl e, store)
         | Inr (response_text, response_data) \<Rightarrow>
             (let store' = save_to_history E store user_id conv_id message response_text
              in case (case response_data of
                         Some rd \<Rightarrow> py_get rd (ustr ''actions_performed'') (PList [])
                       | None \<Rightarrow> Inr (PList [])) of
                   Inl e \<Rightarrow> (Inl e, store')
                 | Inr actions_taken \<Rightarrow>
                     (Inr (PDict
                        [(ustr ''success'', PBool True),
                         (ustr ''response'', response_text),
                         (ustr ''conversation_id'', PStr conv_id),
                         (ustr ''context'', full_context),
                         (ustr ''actions_taken'', actions_taken),
                         (ustr ''timestamp'', PDateTime (cb_utcnow E 4))]),
                      store')))"

definition process_message ::
  "chatbot_env \<Rightarrow> conversations \<Rightarrow> pystr \<Rightarrow> pystr \<Rightarrow> pyval \<Rightarrow> pystr option \<Rightarrow>
   pyval \<times> conversations" where
  "process_message E store message user_id context conversation_id =
     (case resolve_conversation_id E user_id conversation_id of
        Inl e \<Rightarrow> (failure_envelope E None, store)
      | Inr conv_id \<Rightarrow>
          (case message_steps E store message user_id context conv_id of
             (Inl e, store') \<Rightarrow> (failure_envelope E (Some conv_id), store')
           | (Inr result, store') \<Rightarrow> (result, store')))"

section \<open>Agents: the common base\<close>

datatype agent = StudyPlanner | AssignmentManager | ReportGenerator | HelpdeskManager

fun agent_name :: "agent \<Rightarrow> pystr" where
  \<comment> \<open>the name each subclass passes to \<open>BaseAgent.__init__\<close>\<close>
  "agent_name StudyPlanner = ustr ''Study Planner Agent''"
| "agent_name AssignmentManager = ustr ''Assignment Manager Agent''"
| "agent_name ReportGenerator = ustr ''Report Generator Agent''"
| "agent_name HelpdeskManager = ustr ''Helpdesk Manager Agent''"

fun get_fallback_response :: "agent \<Rightarrow> pystr \<Rightarrow> pystr" where
  "get_fallback_response StudyPlanner query = concat
     [[128218], ustr '' I've created a basic study plan for: '', query, [10, 10],
      ustr ''**Plan Overview:**'', [10],
      [8226], ustr '' Duration: 2 weeks'', [10],
      [8226], ustr '' Daily study sessions: 2 hours'', [10],
      [8226], ustr '' Weekly assessments'', [10],
      [8226], ustr '' Recommended materials will be provided'', [10, 10],
      ustr ''I'll help you stay on track with your studies! Check your dashboard for the complete plan.'']"
| "get_fallback_response AssignmentManager query = concat
     [[128221], ustr '' **Assignment Manager**'', [10, 10],
      ustr ''I'm here to help you manage your assignments! I can:'', [10],
      [8226], ustr '' Track all your assignments and deadlines'', [10],
      [8226], ustr '' Help you prioritize your work'', [10],
      [8226], ustr '' Generate content and outlines'', [10],
      [8226], ustr '' Provide study tips and resources'', [10, 10],
      ustr ''What do you need help with today?'']"
| "get_fallback_response ReportGenerator query = concat
     [[128202], ustr '' **Report Generator**'', [10, 10],
      ustr ''I can generate comprehensive reports including:'', [10],
      [8226], ustr '' Student Performance Analytics'', [10],
      [8226], ustr '' Engagement Metrics'', [10],
      [8226], ustr '' Course Analytics'', [10],
      [8226], ustr '' System Overview'', [10, 10],
      ustr ''What type of report would you like to generate?'']"
| "get_fallback_response HelpdeskManager query = concat
     [[127915], ustr '' **Helpdesk Manager**'', [10, 10],
      ustr ''I'm here to help you manage support tickets efficiently!'', [10, 10],
      ustr ''Features:'', [10],
      [8226], ustr '' Intelligent ticket categorization'', [10],
      [8226], ustr '' AI-powered solution suggestions'', [10],
      [8226], ustr '' Priority assignment'', [10],
      [8226], ustr '' Response template generation'', [10, 10],
      ustr ''How can I assist you today?'']"

definition format_response ::
  "agent \<Rightarrow> int \<Rightarrow> pystr \<Rightarrow> pyval list option \<Rightarrow> pyval \<Rightarrow> pyval \<Rightarrow> pyval \<Rightarrow> pyval" where
  \<comment> \<open>\<open>actions\<close> is \<open>Optional[List[...]]\<close>; the other optional arguments default to
      \<open>None\<close>; \<open>utcnow\<close> is the clock reading\<close>
  "format_response self utcnow response actions analysis data recommendations =
     PDict
       [(ustr ''success'', PBool True),
        (ustr ''agent_name'', PStr (agent_name self)),
        (ustr ''response'', PStr response),
        (ustr ''actions_performed'',
           PList (case actions of None \<Rightarrow> [] | Some a \<Rightarrow> if a = [] then [] else a)),
        (ustr ''analysis'', analysis),
        (ustr ''data'', data),
        (ustr ''recommendations'', recommendations),
        (ustr ''timestamp'', PDateTime utcnow)]"

definition error_action :: "exn \<Rightarrow> pyval" where
  \<comment> \<open>\<open>{"type": "error", "message": str(e), "success": False}\<close>\<close>
  "error_action e =
     PDict
       [(ustr ''type'', PStr (ustr ''error'')),
        (ustr ''message'', PStr (exn_str e)),
        (ustr ''success'', PBool False)]"

definition recover :: "agent \<Rightarrow> int \<Rightarrow> pystr \<Rightarrow> exn \<Rightarrow> pyval" where
  \<comment> \<open>the \<open>except Exception\<close> branch that every agent's \<open>process\<close> ends with\<close>
  "recover self utcnow query e =
     format_response self utcnow (get_fallback_response self query)
       (Some [error_action e]) PNone PNone PNone"

definition generate_ai_response ::
  "agent \<Rightarrow> ai_kind option \<Rightarrow> (ai_request \<Rightarrow> exn + pystr) \<Rightarrow> pystr \<Rightarrow> pystr option \<Rightarrow> pystr" where
  "generate_ai_response self kind provider prompt system =
     (case (case kind of
              Some OpenAI \<Rightarrow>
                provider (ChatCompletion
                  ((case system of
                      None \<Rightarrow> []
                    | Some sp \<Rightarrow> if sp = [] then [] else [(ustr ''system'', PStr sp)]) @
                   [(ustr ''user'', PStr prompt)]))
            | Some Gemini \<Rightarrow>
                provider (GenerateContent
                  (case system of
                     None \<Rightarrow> prompt
                   | Some sp \<Rightarrow> if sp = [] then prompt else sp @ [10, 10] @ prompt))
            | Some Anthropic \<Rightarrow>
                provider (MessagesCreate (case system of None \<Rightarrow> [] | Some sp \<Rightarrow> sp)
                  [(ustr ''user'', PStr prompt)])
            | None \<Rightarrow> Inr (get_fallback_response self prompt)) of
        Inl e \<Rightarrow> get_fallback_response self prompt
      | Inr text \<Rightarrow> text)"

section \<open>Parsing text\<close>

definition isspace :: "nat \<Rightarrow> bool" where
  \<comment> \<open>the code points \<open>str.isspace\<close> accepts\<close>
  "isspace c \<longleftrightarrow>
     (9 \<le> c \<and> c \<le> 13) \<or> (28 \<le> c \<and> c \<le> 32) \<or> c = 133 \<or> c = 160 \<or> c = 5760 \<or>
     (8192 \<le> c \<and> c \<le> 8202) \<or> c = 8232 \<or> c = 8233 \<or> c = 8239 \<or> c = 8287 \<or> c = 12288"

fun split_ws :: "pystr \<Rightarrow> pystr \<Rightarrow> pystr list" where
  "split_ws word [] = (if word = [] then [] else [word])"
| "split_ws word (c # s) =
     (if isspace c then (if word = [] then split_ws [] s else word # split_ws [] s)
      else split_ws (word @ [c]) s)"

definition py_split :: "pystr \<Rightarrow> pystr list" where
  \<comment> \<open>\<open>s.split()\<close>: the maximal runs of non-space characters\<close>
  "py_split s = split_ws [] s"

definition py_strip :: "pystr \<Rightarrow> pystr" where
  \<comment> \<open>\<open>s.strip()\<close>\<close>
  "py_strip s = rev (dropWhile isspace (rev (dropWhile isspace s)))"

fun split_on :: "pystr \<Rightarrow> pystr \<Rightarrow> pystr \<Rightarrow> pystr list" where
  "split_on sep piece [] = [piece]"
| "split_on sep piece (c # s) =
     (if startswith (c # s) sep then piece # split_on sep [] (drop (length sep - 1) s)
      else split_on sep (piece @ [c]) s)"

definition py_split_on :: "pystr \<Rightarrow> pystr \<Rightarrow> pystr list" where
  \<comment> \<open>\<open>s.split(sep)\<close> for a non-empty separator\<close>
  "py_split_on sep s = split_on sep [] s"

fun py_index :: "pystr \<Rightarrow> pystr \<Rightarrow> nat option" where
  \<comment> \<open>\<open>s.index(k)\<close>: the first position of \<open>k\<close>, \<open>None\<close> where Python raises ValueError\<close>
  "py_index k [] = (if k = [] then Some 0 else None)"
| "py_index k (c # s) =
     (if startswith (c # s) k then Some 0 else map_option Suc (py_index k s))"

fun py_rindex :: "pystr \<Rightarrow> pystr \<Rightarrow> nat option" where
  \<comment> \<open>\<open>s.rindex(k)\<close>: the last position of \<open>k\<close>\<close>
  "py_rindex k [] = (if k = [] then Some 0 else None)"
| "py_rindex k (c # s) =
     (case py_rindex k s of
        Some i \<Rightarrow> Some (Suc i)
      | None \<Rightarrow> if startswith (c # s) k then Some 0 else None)"

definition digit_val :: "nat \<Rightarrow> nat option" where
  "digit_val c = (if 48 \<le> c \<and> c \<le> 57 then Some (c - 48) else None)"

fun int_digits :: "nat \<Rightarrow> pystr \<Rightarrow> nat option" where
  \<comment> \<open>the digits after the first one; a single underscore may separate two digits\<close>
  "int_digits acc [] = Some acc"
| "int_digits acc (c # s) =
     (if c = 95 then
        (case s of
           [] \<Rightarrow> None
         | d # s' \<Rightarrow>
             (case digit_val d of None \<Rightarrow> None | Some v \<Rightarrow> int_digits (10 * acc + v) s'))
      else (case digit_val c of None \<Rightarrow> None | Some v \<Rightarrow> int_digits (10 * acc + v) s))"

definition int_unsigned :: "pystr \<Rightarrow> nat option" where
  "int_unsigned s =
     (case s of
        [] \<Rightarrow> None
      | c # r \<Rightarrow> (case digit_val c of None \<Rightarrow> None | Some v \<Rightarrow> int_digits v r))"

definition py_int :: "pystr \<Rightarrow> exn + int" where
  \<comment> \<open>\<open>int(s)\<close> for a string in base 10: optional spaces around, an optional sign, ASCII
      digits. Decimal digits of other scripts, which Python accepts too, are not
      recognised, and the interpreter's bound on the number of digits is left out.\<close>
  "py_int s =
     (case (case py_strip s of
              [] \<Rightarrow> None
            | c # r \<Rightarrow>
                if c = 45 then map_option (\<lambda>n. - int n) (int_unsigned r)
                else if c = 43 then map_option int (int_unsigned r)
                else map_option int (int_unsigned (c # r))) of
        None \<Rightarrow> Inl (ValueError (ustr ''invalid literal for int() with base 10''))
      | Some i \<Rightarrow> Inr i)"

fun split_val :: "pyval \<Rightarrow> exn + pystr list" where
  \<comment> \<open>\<open>x.split()\<close>: only a string has the method\<close>
  "split_val (PStr s) = Inr (py_split s)"
| "split_val _ = Inl (AttributeError (ustr ''object has no attribute split''))"

fun py_len :: "pyval \<Rightarrow> exn + nat" where
  "py_len (PStr s) = Inr (length s)"
| "py_len (PList xs) = Inr (length xs)"
| "py_len (PDict d) = Inr (length d)"
| "py_len _ = Inl (TypeError (ustr ''object has no len()''))"

fun py_head :: "nat \<Rightarrow> pyval \<Rightarrow> exn + pyval list" where
  \<comment> \<open>the items of \<open>x[:n]\<close>, as a generator expression walks them\<close>
  "py_head n (PList xs) = Inr (take n xs)"
| "py_head n (PStr s) = Inr (map (\<lambda>c. PStr [c]) (take n s))"
| "py_head n _ = Inl (TypeError (ustr ''object is not subscriptable''))"

fun py_join :: "pystr \<Rightarrow> pystr list \<Rightarrow> pystr" where
  \<comment> \<open>\<open>sep.join(xs)\<close>\<close>
  "py_join sep [] = []"
| "py_join sep [x] = x"
| "py_join sep (x # y # xs) = x @ sep @ py_join sep (y # xs)"

definition quoted :: "string \<Rightarrow> pystr" where
  \<comment> \<open>an ASCII literal between double quotes\<close>
  "quoted s = [34] @ ustr s @ [34]"

section \<open>The study planner\<close>

text \<open>
  What an agent finds around it: the runtime's functions (\<open>json.loads\<close> and
  \<open>datetime.fromisoformat\<close> answer \<open>None\<close> where they raise), the clocks (\<open>ag_now k\<close> is
  the k-th reading \<open>datetime.now()\<close> gives within one method), the completion provider
  and the outcome of the document store's queries. Datetimes are kept as timestamps in
  microseconds, also where the source stores their ISO text, and their arithmetic is that
  of the integers: the range of \<open>datetime\<close> (years 1 to 9999) is left out.
\<close>

record agent_env =
  ag_lower :: "pystr \<Rightarrow> pystr"
  ag_title :: "pystr \<Rightarrow> pystr"
  ag_repr :: "pyval \<Rightarrow> pystr"
  ag_json_loads :: "pystr \<Rightarrow> pyval option"
  ag_fromisoformat :: "pystr \<Rightarrow> int option"
  ag_strftime :: "int \<Rightarrow> pystr"
  ag_now :: "nat \<Rightarrow> int"
  ag_utcnow :: int
  ag_ai_type :: "ai_kind option"
  ag_provider :: "ai_request \<Rightarrow> exn + pystr"
  users_find_one :: "pystr \<Rightarrow> exn + pydict option"
  courses_find :: "pyval \<Rightarrow> exn + pydict list"
  assignments_find :: "pystr \<Rightarrow> exn + pydict list"
  materials_find :: "pystr \<Rightarrow> exn + pydict list"
  plans_insert_one :: "pydict \<Rightarrow> exn + pyval"

definition fetch_user_data :: "agent_env \<Rightarrow> pystr \<Rightarrow> pydict" where
  "fetch_user_data E user_id =
     (case users_find_one E user_id of
        Inl e \<Rightarrow> []
      | Inr None \<Rightarrow> []
      | Inr (Some user) \<Rightarrow> user)"

definition fetch_courses :: "agent_env \<Rightarrow> pystr \<Rightarrow> pydict list" where
  "fetch_courses E user_id =
     (let user = fetch_user_data E user_id;
          enrolled_course_ids = dict_get user (ustr ''enrolledCourses'') (PList [])
      in case courses_find E enrolled_course_ids of Inl e \<Rightarrow> [] | Inr course_list \<Rightarrow> course_list)"

definition fetch_assignments :: "agent_env \<Rightarrow> pystr \<Rightarrow> pydict list" where
  "fetch_assignments E user_id =
     (case assignments_find E user_id of Inl e \<Rightarrow> [] | Inr assignment_list \<Rightarrow> assignment_list)"

definition fetch_materials :: "agent_env \<Rightarrow> pystr \<Rightarrow> pydict list" where
  "fetch_materials E query =
     (case materials_find E query of Inl e \<Rightarrow> [] | Inr material_list \<Rightarrow> material_list)"

definition is_pending :: "pydict \<Rightarrow> bool" where
  \<comment> \<open>\<open>a.get("status") == "pending"\<close>\<close>
  "is_pending a \<longleftrightarrow> dict_get a (ustr ''status'') PNone = PStr (ustr ''pending'')"

definition gather_user_context :: "agent_env \<Rightarrow> pystr \<Rightarrow> pyval" where
  "gather_user_context E user_id =
     (let user = fetch_user_data E user_id;
          courses = fetch_courses E user_id;
          assignments = fetch_assignments E user_id
      in PDict
           [(ustr ''user'', PDict user),
            (ustr ''courses'', PList (map PDict courses)),
            (ustr ''assignments'', PList (map PDict assignments)),
            (ustr ''total_courses'', PInt (int (length courses))),
            (ustr ''pending_assignments'', PInt (int (length (filter is_pending assignments))))])"

definition fallback_analysis :: "pystr \<Rightarrow> pyval" where
  "fallback_analysis query =
     PDict
       [(ustr ''goal_type'', PStr (ustr ''general_study'')),
        (ustr ''difficulty_level'', PStr (ustr ''intermediate'')),
        (ustr ''estimated_duration'', PStr (ustr ''2 weeks'')),
        (ustr ''key_topics'', PList [PStr query]),
        (ustr ''prerequisites'', PList []),
        (ustr ''recommendations'',
           PList [PStr (ustr ''Start with fundamentals''),
                  PStr (ustr ''Practice regularly''),
                  PStr (ustr ''Review materials daily'')])]"

definition extract_json :: "pystr \<Rightarrow> exn + pystr" where
  \<comment> \<open>the text \<open>_analyze_study_goal\<close> hands to \<open>json.loads\<close>\<close>
  "extract_json ai_response =
     (if str_in (ustr ''```json'') ai_response then
        (case py_split_on (ustr ''```json'') ai_response of
           x # part # rest \<Rightarrow>
             (case py_split_on (ustr ''```'') part of
                [] \<Rightarrow> Inl (IndexError (ustr ''list index out of range''))
              | inner # rest' \<Rightarrow> Inr (py_strip inner))
         | _ \<Rightarrow> Inl (IndexError (ustr ''list index out of range'')))
      else if str_in (ustr ''```'') ai_response then
        (case py_split_on (ustr ''```'') ai_response of
           x # part # rest \<Rightarrow> Inr (py_strip part)
         | _ \<Rightarrow> Inl (IndexError (ustr ''list index out of range'')))
      else if str_in (ustr ''{'') ai_response then
        (case py_index (ustr ''{'') ai_response of
           None \<Rightarrow> Inl (ValueError (ustr ''substring not found''))
         | Some i \<Rightarrow>
             (case py_rindex (ustr ''}'') ai_response of
                None \<Rightarrow> Inl (ValueError (ustr ''substring not found''))
              | Some j \<Rightarrow> Inr (take (j + 1 - i) (drop i ai_response))))
      else Inr ai_response)"

definition analysis_system_prompt :: "agent_env \<Rightarrow> pyval \<Rightarrow> exn + pystr" where
  "analysis_system_prompt E context =
     (case py_getitem context (ustr ''user'') of
        Inl e \<Rightarrow> Inl e
      | Inr user \<Rightarrow>
     (case py_get user (ustr ''department'') (PStr (ustr ''N/A'')) of
        Inl e \<Rightarrow> Inl e
      | Inr department \<Rightarrow>
     (case py_get user (ustr ''year'') (PStr (ustr ''N/A'')) of
        Inl e \<Rightarrow> Inl e
      | Inr year \<Rightarrow>
     (case py_getitem context (ustr ''total_courses'') of
        Inl e \<Rightarrow> Inl e
      | Inr total_courses \<Rightarrow>
     (case py_getitem context (ustr ''pending_assignments'') of
        Inl e \<Rightarrow> Inl e
      | Inr pending_assignments \<Rightarrow>
          Inr (concat
            [ustr ''You are an expert academic advisor. Analyze the student's study goal and provide insights.'',
             [10, 10],
             ustr ''Student Context:'', [10],
             ustr ''- Department: '', py_str (ag_repr E) department, [10],
             ustr ''- Year: '', py_str (ag_repr E) year, [10],
             ustr ''- Enrolled Courses: '', py_str (ag_repr E) total_courses, [10],
             ustr ''- Pending Assignments: '', py_str (ag_repr E) pending_assignments, [10, 10],
             ustr ''Provide analysis in JSON format:'', [10],
             ustr ''{'', [10],
             ustr ''    '', quoted ''goal_type'', ustr '': '',
               quoted ''exam_prep|skill_learning|course_completion|general_study'', ustr '','', [10],
             ustr ''    '', quoted ''difficulty_level'', ustr '': '',
               quoted ''beginner|intermediate|advanced'', ustr '','', [10],
             ustr ''    '', quoted ''estimated_duration'', ustr '': '',
               quoted ''number of weeks'', ustr '','', [10],
             ustr ''    '', quoted ''key_topics'', ustr '': ['', quoted ''topic1'', ustr '', '',
               quoted ''topic2'', ustr ''],'', [10],
             ustr ''    '', quoted ''prerequisites'', ustr '': ['', quoted ''prereq1'', ustr '', '',
               quoted ''prereq2'', ustr ''],'', [10],
             ustr ''    '', quoted ''recommendations'', ustr '': ['', quoted ''rec1'', ustr '', '',
               quoted ''rec2'', ustr '']'', [10],
             ustr ''}'']))))))"

definition parse_analysis :: "agent_env \<Rightarrow> pystr \<Rightarrow> pystr \<Rightarrow> pyval" where
  \<comment> \<open>the \<open>try\<close>/\<open>except\<close> of \<open>_analyze_study_goal\<close>: whatever is raised inside gives the
      fallback analysis\<close>
  "parse_analysis E query ai_response =
     (case extract_json ai_response of
        Inl e \<Rightarrow> fallback_analysis query
      | Inr json_str \<Rightarrow>
          (case ag_json_loads E json_str of
             None \<Rightarrow> fallback_analysis query
           | Some analysis \<Rightarrow> analysis))"

definition analyze_study_goal :: "agent_env \<Rightarrow> pystr \<Rightarrow> pyval \<Rightarrow> exn + pyval" where
  "analyze_study_goal E query context =
     (case analysis_system_prompt E context of
        Inl e \<Rightarrow> Inl e
      | Inr system_prompt \<Rightarrow>
          (let prompt = ustr ''Student Goal: '' @ query @ [10, 10] @
                 ustr ''Analyze this study goal and provide structured guidance.'';
               ai_response = generate_ai_response StudyPlanner (ag_ai_type E) (ag_provider E)
                 prompt (Some system_prompt)
           in Inr (parse_analysis E query ai_response)))"

definition week_us :: int where
  \<comment> \<open>\<open>timedelta(weeks=1)\<close> in microseconds\<close>
  "week_us = 604800000000"

definition day_us :: int where
  "day_us = 86400000000"

definition daily_task :: "(nat \<Rightarrow> int) \<Rightarrow> pystr \<Rightarrow> nat \<Rightarrow> nat \<Rightarrow> pyval" where
  \<comment> \<open>the body of the loop over \<open>range(7)\<close>\<close>
  "daily_task now goal week day =
     PDict
       [(ustr ''title'', PStr (ustr ''Day '' @ str_int (int day + 1) @ ustr '': Study Session'')),
        (ustr ''description'', PStr (ustr ''Focus on '' @ goal)),
        (ustr ''type'', PStr (ustr ''study'')),
        (ustr ''estimated_hours'', PInt 2),
        (ustr ''deadline'',
           PDateTime (now (9 * week + 2 + day) + int week * week_us + int day * day_us)),
        (ustr ''status'', PStr (ustr ''pending'')),
        (ustr ''priority'', PStr (if day < 3 then ustr ''high'' else ustr ''medium''))]"

definition study_phase :: "(nat \<Rightarrow> int) \<Rightarrow> pystr \<Rightarrow> nat \<Rightarrow> pyval" where
  \<comment> \<open>the body of the loop over \<open>range(duration_weeks)\<close>\<close>
  "study_phase now goal week =
     (let end_date = PDateTime (now (9 * week + 1) + (int week + 1) * week_us)
      in PDict
           [(ustr ''name'', PStr (ustr ''Week '' @ str_int (int week + 1))),
            (ustr ''order'', PInt (int week)),
            (ustr ''duration'', PStr (ustr ''1 week'')),
            (ustr ''start_date'', PDateTime (now (9 * week) + int week * week_us)),
            (ustr ''end_date'', end_date),
            (ustr ''tasks'',
               PList (map (daily_task now goal week) [0..<7] @
                 [PDict
                    [(ustr ''title'',
                        PStr (ustr ''Week '' @ str_int (int week + 1) @ ustr '' Assessment'')),
                     (ustr ''description'',
                        PStr (ustr ''Test your understanding of '' @ goal)),
                     (ustr ''type'', PStr (ustr ''assessment'')),
                     (ustr ''estimated_hours'', PInt 1),
                     (ustr ''deadline'', end_date),
                     (ustr ''status'', PStr (ustr ''pending'')),
                     (ustr ''priority'', PStr (ustr ''high''))]]))])"

definition create_study_plan :: "(nat \<Rightarrow> int) \<Rightarrow> pystr \<Rightarrow> pyval \<Rightarrow> pyval \<Rightarrow> exn + pyval" where
  "create_study_plan now goal context analysis =
     (case py_get analysis (ustr ''estimated_duration'') (PStr (ustr ''2'')) of
        Inl e \<Rightarrow> Inl e
      | Inr estimated \<Rightarrow>
     (case split_val estimated of
        Inl e \<Rightarrow> Inl e
      | Inr tokens \<Rightarrow>
     (case tokens of
        [] \<Rightarrow> Inl (IndexError (ustr ''list index out of range''))
      | token # rest \<Rightarrow>
     (case py_int token of
        Inl e \<Rightarrow> Inl e
      | Inr duration_weeks \<Rightarrow>
          (let phases = map (study_phase now goal) [0..<nat duration_weeks]
           in case py_get analysis (ustr ''key_topics'') (PList []) of
                Inl e \<Rightarrow> Inl e
              | Inr key_topics \<Rightarrow>
             (case py_get analysis (ustr ''difficulty_level'') (PStr (ustr ''intermediate'')) of
                Inl e \<Rightarrow> Inl e
              | Inr difficulty \<Rightarrow>
                  Inr (PDict
                    [(ustr ''goal'', PStr goal),
                     (ustr ''phases'', PList phases),
                     (ustr ''total_duration'', PStr (str_int duration_weeks @ ustr '' weeks'')),
                     (ustr ''key_topics'', key_topics),
                     (ustr ''difficulty'', difficulty),
                     (ustr ''created_at'', PDateTime (now (9 * nat duration_weeks)))])))))))"

definition find_relevant_materials :: "agent_env \<Rightarrow> pystr \<Rightarrow> pydict list" where
  "find_relevant_materials E query =
     map (\<lambda>material.
            dict_set (dict_set material (ustr ''relevance_score'') (PInt 85))
              (ustr ''ai_recommended'') (PBool True))
       (fetch_materials E query)"

definition save_study_plan :: "agent_env \<Rightarrow> pystr \<Rightarrow> pyval \<Rightarrow> pydict list \<Rightarrow> pyval" where
  \<comment> \<open>the identifier the insertion gives, or \<open>"temp_id"\<close> when anything is raised\<close>
  "save_study_plan E user_id plan materials =
     (case py_getitem plan (ustr ''goal'') of
        Inl e \<Rightarrow> PStr (ustr ''temp_id'')
      | Inr goal \<Rightarrow>
          (case plans_insert_one E
                  [(ustr ''userId'', PStr user_id),
                   (ustr ''planType'', PStr (ustr ''study'')),
                   (ustr ''goal'', goal),
                   (ustr ''status'', PStr (ustr ''active'')),
                   (ustr ''plan'', plan),
                   (ustr ''materials'', PList (map PDict materials)),
                   (ustr ''createdAt'', PDateTime (ag_utcnow E)),
                   (ustr ''updatedAt'', PDateTime (ag_utcnow E))] of
             Inl e \<Rightarrow> PStr (ustr ''temp_id'')
           | Inr inserted_id \<Rightarrow> inserted_id))"

fun title_val :: "(pystr \<Rightarrow> pystr) \<Rightarrow> pyval \<Rightarrow> exn + pystr" where
  \<comment> \<open>\<open>x.title()\<close>: only a string has the method\<close>
  "title_val title (PStr s) = Inr (title s)"
| "title_val title _ = Inl (AttributeError (ustr ''object has no attribute title''))"

definition bullet_lines :: "pystr list \<Rightarrow> pystr" where
  \<comment> \<open>\<open>chr(10).join(f'\<bullet> {x}' for x in xs)\<close>, U+2022 being the bullet\<close>
  "bullet_lines xs = py_join [10] (map (\<lambda>x. [8226] @ ustr '' '' @ x) xs)"

definition generate_response ::
  "agent_env \<Rightarrow> pyval \<Rightarrow> pydict list \<Rightarrow> pyval \<Rightarrow> exn + pystr" where
  "generate_response E plan materials analysis =
     (case py_get plan (ustr ''total_duration'') (PStr (ustr ''2 weeks'')) of
        Inl e \<Rightarrow> Inl e
      | Inr duration \<Rightarrow>
     (case py_get plan (ustr ''phases'') (PList []) of
        Inl e \<Rightarrow> Inl e
      | Inr phase_list \<Rightarrow>
     (case py_len phase_list of
        Inl e \<Rightarrow> Inl e
      | Inr phases \<Rightarrow>
     (case py_getitem plan (ustr ''goal'') of
        Inl e \<Rightarrow> Inl e
      | Inr goal \<Rightarrow>
     (case py_get analysis (ustr ''difficulty_level'') (PStr (ustr ''intermediate'')) of
        Inl e \<Rightarrow> Inl e
      | Inr difficulty_level \<Rightarrow>
     (case title_val (ag_title E) difficulty_level of
        Inl e \<Rightarrow> Inl e
      | Inr difficulty \<Rightarrow>
     (case py_get analysis (ustr ''key_topics'') (PList [PStr (ustr ''Core concepts'')]) of
        Inl e \<Rightarrow> Inl e
      | Inr key_topics \<Rightarrow>
     (case py_head 5 key_topics of
        Inl e \<Rightarrow> Inl e
      | Inr topics \<Rightarrow>
     (case py_get analysis (ustr ''recommendations'') (PList []) of
        Inl e \<Rightarrow> Inl e
      | Inr recommendations \<Rightarrow>
     (case py_head 3 recommendations of
        Inl e \<Rightarrow> Inl e
      | Inr recs \<Rightarrow>
          Inr (concat
            [[9989], ustr '' **Study Plan Created Successfully!**'', [10, 10],
             [128218], ustr '' **Goal:** '', py_str (ag_repr E) goal, [10],
             [9201, 65039], ustr '' **Duration:** '', py_str (ag_repr E) duration, [10],
             [128202], ustr '' **Difficulty:** '', difficulty, [10, 10],
             ustr ''**'', [128197], ustr '' Plan Structure:**'', [10],
             [8226], ustr '' '', str_int (int phases),
               ustr '' phases (weeks) of structured learning'', [10],
             [8226], ustr '' Daily study sessions (2 hours recommended)'', [10],
             [8226], ustr '' Weekly assessments to track progress'', [10, 10],
             ustr ''**'', [127919], ustr '' Key Topics to Cover:**'', [10],
             bullet_lines (map (py_str (ag_repr E)) topics), [10, 10],
             ustr ''**'', [128214], ustr '' Study Materials Found:** '',
               str_int (int (length materials)), ustr '' resources'', [10],
             bullet_lines
               (map (\<lambda>m. py_str (ag_repr E) (dict_get m (ustr ''title'') (PStr (ustr ''Material''))))
                  (take 3 materials)), [10, 10],
             ustr ''**'', [128161], ustr '' AI Recommendations:**'', [10],
             bullet_lines (map (py_str (ag_repr E)) recs), [10, 10],
             ustr ''**'', [128640], ustr '' Next Steps:**'', [10],
             ustr ''1. Review your personalized plan in the dashboard'', [10],
             ustr ''2. Access study materials from the resources section'', [10],
             ustr ''3. Start with Week 1, Day 1 tasks'', [10],
             ustr ''4. Track your progress regularly'', [10, 10],
             ustr ''Your study plan is ready! Let's achieve your academic goals together! '',
             [127891]])))))))))))"

definition study_planner_body :: "agent_env \<Rightarrow> pystr \<Rightarrow> pystr \<Rightarrow> exn + pyval" where
  \<comment> \<open>the \<open>try\<close> block of \<open>StudentStudyPlannerAgent.process\<close>; the audit entry
      \<open>log_action\<close> writes is not part of the result\<close>
  "study_planner_body E query user_id =
     (let user_context = gather_user_context E user_id
      in case analyze_study_goal E query user_context of
           Inl e \<Rightarrow> Inl e
         | Inr analysis \<Rightarrow>
        (case create_study_plan (ag_now E) query user_context analysis of
           Inl e \<Rightarrow> Inl e
         | Inr study_plan \<Rightarrow>
          (let materials = find_relevant_materials E query;
               plan_id = save_study_plan E user_id study_plan materials
           in case generate_response E study_plan materials analysis of
                Inl e \<Rightarrow> Inl e
              | Inr response \<Rightarrow>
             (case py_get analysis (ustr ''recommendations'') (PList []) of
                Inl e \<Rightarrow> Inl e
              | Inr recommendations \<Rightarrow>
                  Inr (format_response StudyPlanner (ag_utcnow E) response
                    (Some
                      [PDict
                         [(ustr ''type'', PStr (ustr ''study_plan_created'')),
                          (ustr ''plan_id'', PStr (py_str (ag_repr E) plan_id)),
                          (ustr ''success'', PBool True)],
                       PDict
                         [(ustr ''type'', PStr (ustr ''materials_found'')),
                          (ustr ''count'', PInt (int (length materials))),
                          (ustr ''success'', PBool True)]])
                    analysis
                    (PDict
                       [(ustr ''plan_id'', PStr (py_str (ag_repr E) plan_id)),
                        (ustr ''study_plan'', study_plan),
                        (ustr ''materials'', PList (map PDict (take 5 materials)))])
                    recommendations)))))"

definition study_planner_process :: "agent_env \<Rightarrow> pystr \<Rightarrow> pystr \<Rightarrow> pyval" where
  "study_planner_process E query user_id =
     (case study_planner_body E query user_id of
        Inr r \<Rightarrow> r
      | Inl e \<Rightarrow> recover StudyPlanner (ag_utcnow E) query e)"

section \<open>The assignment manager\<close>

definition detect_action_type :: "(pystr \<Rightarrow> pystr) \<Rightarrow> pystr \<Rightarrow> pystr" where
  "detect_action_type lower query =
     (let query_lower = lower query
      in if list_ex (\<lambda>word. str_in word query_lower)
              (map ustr [''list'', ''show'', ''what are'', ''my assignments''])
         then ustr ''list_assignments''
         else if list_ex (\<lambda>word. str_in word query_lower)
              (map ustr [''generate'', ''create'', ''write'', ''help me with''])
         then ustr ''generate_content''
         else if list_ex (\<lambda>word. str_in word query_lower)
              (map ustr [''help'', ''stuck'', ''how to'', ''guide''])
         then ustr ''get_help''
         else ustr ''general'')"

definition due_date :: "(pystr \<Rightarrow> int option) \<Rightarrow> int \<Rightarrow> pydict \<Rightarrow> exn + int" where
  \<comment> \<open>\<open>datetime.fromisoformat(a.get("dueDate", datetime.now().isoformat()))\<close>, \<open>reading\<close>
      being what \<open>datetime.now()\<close> gives there\<close>
  "due_date fromisoformat reading a =
     (case map_of a (ustr ''dueDate'') of
        None \<Rightarrow> Inr reading
      | Some (PStr s) \<Rightarrow>
          (case fromisoformat s of
             None \<Rightarrow> Inl (ValueError (ustr ''Invalid isoformat string''))
           | Some t \<Rightarrow> Inr t)
      | Some other \<Rightarrow> Inl (TypeError (ustr ''fromisoformat: argument must be str'')))"

fun hashable :: "pyval \<Rightarrow> bool" where
  "hashable (PList xs) = False"
| "hashable (PDict d) = False"
| "hashable v = True"

definition priority_rank :: "pydict \<Rightarrow> exn + nat" where
  \<comment> \<open>\<open>{"high": 0, "medium": 1, "low": 2}.get(x.get("priority", "medium"), 1)\<close>\<close>
  "priority_rank a =
     (let priority = dict_get a (ustr ''priority'') (PStr (ustr ''medium''))
      in if \<not> hashable priority then Inl (TypeError (ustr ''unhashable type''))
         else if priority = PStr (ustr ''high'') then Inr 0
         else if priority = PStr (ustr ''medium'') then Inr 1
         else if priority = PStr (ustr ''low'') then Inr 2
         else Inr 1)"

fun overdue_from ::
  "(pystr \<Rightarrow> int option) \<Rightarrow> (nat \<Rightarrow> int) \<Rightarrow> nat \<Rightarrow> pydict list \<Rightarrow> exn + pydict list" where
  \<comment> \<open>the comprehension that selects the overdue items: each item reads the clock twice,
      for the default due date and for the comparison\<close>
  "overdue_from fromisoformat now k [] = Inr []"
| "overdue_from fromisoformat now k (a # pending) =
     (case due_date fromisoformat (now k) a of
        Inl e \<Rightarrow> Inl e
      | Inr due \<Rightarrow>
          (case overdue_from fromisoformat now (k + 2) pending of
             Inl e \<Rightarrow> Inl e
           | Inr overdue \<Rightarrow> Inr (if due < now (k + 1) then a # overdue else overdue)))"

fun sort_keys ::
  "(pystr \<Rightarrow> int option) \<Rightarrow> (nat \<Rightarrow> int) \<Rightarrow> nat \<Rightarrow> pydict list \<Rightarrow> exn + (int \<times> nat) list" where
  \<comment> \<open>the key \<open>sorted\<close> computes for each item, in order\<close>
  "sort_keys fromisoformat now k [] = Inr []"
| "sort_keys fromisoformat now k (a # pending) =
     (case due_date fromisoformat (now k) a of
        Inl e \<Rightarrow> Inl e
      | Inr due \<Rightarrow>
          (case priority_rank a of
             Inl e \<Rightarrow> Inl e
           | Inr r \<Rightarrow>
               (case sort_keys fromisoformat now (k + 1) pending of
                  Inl e \<Rightarrow> Inl e
                | Inr keys \<Rightarrow> Inr ((due, r) # keys))))"

definition prioritize ::
  "(pystr \<Rightarrow> int option) \<Rightarrow> (nat \<Rightarrow> int) \<Rightarrow> nat \<Rightarrow> pydict list \<Rightarrow> exn + pydict list" where
  \<comment> \<open>\<open>sorted(pending, key=...)\<close>: a stable sort by the pair (due date, priority rank)\<close>
  "prioritize fromisoformat now k pending =
     (case sort_keys fromisoformat now k pending of
        Inl e \<Rightarrow> Inl e
      | Inr keys \<Rightarrow> Inr (map snd (sort_key fst (zip keys pending))))"

fun priority_lines :: "agent_env \<Rightarrow> nat \<Rightarrow> nat \<Rightarrow> pydict list \<Rightarrow> exn + pystr list" where
  \<comment> \<open>the numbered lines of the dashboard, one for each of \<open>prioritized[:5]\<close>\<close>
  "priority_lines E k i [] = Inr []"
| "priority_lines E k i (a # prioritized) =
     (case due_date (ag_fromisoformat E) (ag_now E k) a of
        Inl e \<Rightarrow> Inl e
      | Inr due \<Rightarrow>
          (case priority_lines E (k + 1) (i + 1) prioritized of
             Inl e \<Rightarrow> Inl e
           | Inr rest \<Rightarrow>
               Inr ((str_int (int i + 1) @ ustr ''. **'' @
                     py_str (ag_repr E) (dict_get a (ustr ''title'') (PStr (ustr ''Assignment''))) @
                     ustr ''** - Due: '' @ ag_strftime E due @ ustr '' ('' @
                     py_str (ag_repr E) (dict_get a (ustr ''priority'') (PStr (ustr ''medium''))) @
                     ustr '' priority)'') # rest)))"

definition is_completed :: "pydict \<Rightarrow> bool" where
  \<comment> \<open>\<open>a.get("status") == "completed"\<close>\<close>
  "is_completed a \<longleftrightarrow> dict_get a (ustr ''status'') PNone = PStr (ustr ''completed'')"

definition list_assignments :: "agent_env \<Rightarrow> pystr \<Rightarrow> pystr \<Rightarrow> exn + pyval" where
  "list_assignments E user_id query =
     (let assignments = fetch_assignments E user_id
      in if assignments = [] then
           Inr (format_response AssignmentManager (ag_utcnow E)
             ([128221] @ ustr '' You don't have any assignments yet. When assignments are added, I'll help you manage them!'')
             None PNone (PDict [(ustr ''assignments'', PList [])]) PNone)
         else
           (let pending = filter is_pending assignments;
                completed = filter is_completed assignments
            in case overdue_from (ag_fromisoformat E) (ag_now E) 0 pending of
                 Inl e \<Rightarrow> Inl e
               | Inr overdue \<Rightarrow>
              (case prioritize (ag_fromisoformat E) (ag_now E) (2 * length pending) pending of
                 Inl e \<Rightarrow> Inl e
               | Inr prioritized \<Rightarrow>
              (case priority_lines E (3 * length pending) 0 (take 5 prioritized) of
                 Inl e \<Rightarrow> Inl e
               | Inr top_lines \<Rightarrow>
                   Inr (format_response AssignmentManager (ag_utcnow E)
                     (concat
                       [[128221], ustr '' **Assignment Dashboard**'', [10, 10],
                        ustr ''**'', [128202], ustr '' Overview:**'', [10],
                        [8226], ustr '' Total Assignments: '', str_int (int (length assignments)), [10],
                        [8226], ustr '' Pending: '', str_int (int (length pending)), [10],
                        [8226], ustr '' Completed: '', str_int (int (length completed)), [10],
                        [8226], ustr '' '', [9888, 65039], ustr '' Overdue: '',
                          str_int (int (length overdue)), [10, 10],
                        ustr ''**'', [127919], ustr '' Top Priority Assignments:**'', [10],
                        py_join [10] top_lines, [10, 10],
                        ustr ''**'', [128161], ustr '' Recommendations:**'', [10],
                        [8226], ustr '' Focus on overdue assignments first'', [10],
                        [8226], ustr '' Allocate time for high-priority tasks'', [10],
                        [8226], ustr '' Break down large assignments into smaller tasks'', [10, 10],
                        ustr ''Need help with any specific assignment? Just ask!''])
                     (Some
                       [PDict
                          [(ustr ''type'', PStr (ustr ''assignments_analyzed'')),
                           (ustr ''count'', PInt (int (length assignments))),
                           (ustr ''success'', PBool True)]])
                     (PDict
                       [(ustr ''total'', PInt (int (length assignments))),
                        (ustr ''pending'', PInt (int (length pending))),
                        (ustr ''completed'', PInt (int (length completed))),
                        (ustr ''overdue'', PInt (int (length overdue)))])
                     (PDict [(ustr ''assignments'', PList (map PDict (take 10 prioritized)))])
                     PNone)))))"

definition generate_assignment_content :: "agent_env \<Rightarrow> pystr \<Rightarrow> pystr \<Rightarrow> exn + pyval" where
  "generate_assignment_content E user_id query =
     (let system_prompt = concat
            [ustr ''You are an expert academic assistant. Help students create high-quality assignment content.'',
             [10, 10],
             ustr ''Provide:'', [10],
             ustr ''1. Outline/structure'', [10],
             ustr ''2. Key points to cover'', [10],
             ustr ''3. Research suggestions'', [10],
             ustr ''4. Writing tips''];
          ai_response = generate_ai_response AssignmentManager (ag_ai_type E) (ag_provider E)
            query (Some system_prompt)
      in Inr (format_response AssignmentManager (ag_utcnow E)
           (concat
             [[9997, 65039], ustr '' **Assignment Content Generation**'', [10, 10],
              ai_response, [10, 10],
              ustr ''**'', [128218], ustr '' Additional Resources:**'', [10],
              [8226], ustr '' Check the materials section for relevant resources'', [10],
              [8226], ustr '' Review course materials for background information'', [10],
              [8226], ustr '' Ensure proper citations and references'', [10, 10],
              ustr ''**'', [128161], ustr '' Pro Tips:**'', [10],
              [8226], ustr '' Start with an outline'', [10],
              [8226], ustr '' Break down into sections'', [10],
              [8226], ustr '' Review and revise before submission'', [10, 10],
              ustr ''Need more specific help? Let me know!''])
           (Some [PDict [(ustr ''type'', PStr (ustr ''content_generated'')),
                         (ustr ''success'', PBool True)]])
           PNone PNone PNone))"

definition provide_assignment_help :: "agent_env \<Rightarrow> pystr \<Rightarrow> pystr \<Rightarrow> exn + pyval" where
  "provide_assignment_help E user_id query =
     (let system_prompt =
            ustr ''You are a helpful academic tutor. Provide clear, step-by-step guidance for student queries.'';
          ai_response = generate_ai_response AssignmentManager (ag_ai_type E) (ag_provider E)
            query (Some system_prompt)
      in Inr (format_response AssignmentManager (ag_utcnow E)
           ([128214] @ ustr '' **Assignment Help**'' @ [10, 10] @ ai_response)
           (Some [PDict [(ustr ''type'', PStr (ustr ''help_provided'')),
                         (ustr ''success'', PBool True)]])
           PNone PNone PNone))"

definition general_assignment_guidance :: "agent_env \<Rightarrow> pystr \<Rightarrow> pystr \<Rightarrow> exn + pyval" where
  "general_assignment_guidance E user_id query =
     (let assignments = fetch_assignments E user_id
      in Inr (format_response AssignmentManager (ag_utcnow E)
           (concat
             [[128218], ustr '' **Assignment Management**'', [10, 10],
              ustr ''I can help you with:'', [10],
              [8226], ustr '' '', [128203], ustr '' List and track your assignments'', [10],
              [8226], ustr '' '', [9997, 65039], ustr '' Generate assignment content and outlines'', [10],
              [8226], ustr '' '', [128214], ustr '' Provide research and writing guidance'', [10],
              [8226], ustr '' '', [9200], ustr '' Manage deadlines and priorities'', [10, 10],
              ustr ''You currently have **'', str_int (int (length assignments)),
                ustr '' assignments**.'', [10, 10],
              ustr ''What would you like help with?''])
           None PNone PNone PNone))"

definition assignment_manager_body :: "agent_env \<Rightarrow> pystr \<Rightarrow> pystr \<Rightarrow> exn + pyval" where
  \<comment> \<open>the \<open>try\<close> block of \<open>StudentAssignmentManagerAgent.process\<close>\<close>
  "assignment_manager_body E query user_id =
     (let action_type = detect_action_type (ag_lower E) query
      in if action_type = ustr ''list_assignments'' then list_assignments E user_id query
         else if action_type = ustr ''generate_content''
         then generate_assignment_content E user_id query
         else if action_type = ustr ''get_help'' then provide_assignment_help E user_id query
         else general_assignment_guidance E user_id query)"

definition assignment_manager_process :: "agent_env \<Rightarrow> pystr \<Rightarrow> pystr \<Rightarrow> pyval" where
  "assignment_manager_process E query user_id =
     (case assignment_manager_body E query user_id of
        Inr r \<Rightarrow> r
      | Inl e \<Rightarrow> recover AssignmentManager (ag_utcnow E) query e)"

section \<open>The administrators' agents\<close>

definition detect_report_type :: "(pystr \<Rightarrow> pystr) \<Rightarrow> pystr \<Rightarrow> pystr" where
  "detect_report_type lower query =
     (let query_lower = lower query
      in if list_ex (\<lambda>word. str_in word query_lower)
              (map ustr [''student'', ''performance'', ''grades''])
         then ustr ''student_performance''
         else if list_ex (\<lambda>word. str_in word query_lower)
              (map ustr [''engagement'', ''activity'', ''participation''])
         then ustr ''engagement''
         else if list_ex (\<lambda>word. str_in word query_lower)
              (map ustr [''course'', ''enrollment'', ''class''])
         then ustr ''course_analytics''
         else ustr ''overview'')"

text \<open>
  The four report generators aggregate the document store and re-raise what they meet:
  \<open>reports\<close> gives, for each of them, what it returns or raises.
\<close>

datatype report = StudentPerformance | Engagement | CourseAnalytics | Overview

definition report_generator_body ::
  "(pystr \<Rightarrow> pystr) \<Rightarrow> (report \<Rightarrow> exn + pyval) \<Rightarrow> pystr \<Rightarrow> exn + pyval" where
  \<comment> \<open>the \<open>try\<close> block of \<open>AdminReportGeneratorAgent.process\<close>\<close>
  "report_generator_body lower reports query =
     (let report_type = detect_report_type lower query
      in if report_type = ustr ''student_performance'' then reports StudentPerformance
         else if report_type = ustr ''engagement'' then reports Engagement
         else if report_type = ustr ''course_analytics'' then reports CourseAnalytics
         else reports Overview)"

definition report_generator_process ::
  "(pystr \<Rightarrow> pystr) \<Rightarrow> (report \<Rightarrow> exn + pyval) \<Rightarrow> int \<Rightarrow> pystr \<Rightarrow> pystr \<Rightarrow> pyval" where
  "report_generator_process lower reports utcnow query user_id =
     (case report_generator_body lower reports query of
        Inr r \<Rightarrow> r
      | Inl e \<Rightarrow> recover ReportGenerator utcnow query e)"

definition helpdesk_action_type :: "(pystr \<Rightarrow> pystr) \<Rightarrow> pystr \<Rightarrow> pystr" where
  \<comment> \<open>\<open>AdminHelpdeskManagerAgent._detect_action_type\<close>\<close>
  "helpdesk_action_type lower query =
     (let query_lower = lower query
      in if list_ex (\<lambda>word. str_in word query_lower)
              (map ustr [''categorize'', ''category'', ''classify''])
         then ustr ''categorize''
         else if list_ex (\<lambda>word. str_in word query_lower)
              (map ustr [''solve'', ''solution'', ''fix'', ''help''])
         then ustr ''suggest_solution''
         else if list_ex (\<lambda>word. str_in word query_lower)
              (map ustr [''list'', ''show'', ''tickets'', ''pending''])
         then ustr ''list_tickets''
         else ustr ''general'')"

text \<open>
  The four helpdesk operations, likewise: \<open>operations\<close> gives what each returns or raises
  for the query and context at hand.
\<close>

datatype helpdesk_operation = CategorizeTicket | SuggestSolution | ListTickets | GeneralInfo

definition helpdesk_manager_body ::
  "(pystr \<Rightarrow> pystr) \<Rightarrow> (helpdesk_operation \<Rightarrow> exn + pyval) \<Rightarrow> pystr \<Rightarrow> exn + pyval" where
  \<comment> \<open>the \<open>try\<close> block of \<open>AdminHelpdeskManagerAgent.process\<close>\<close>
  "helpdesk_manager_body lower operations query =
     (let action_type = helpdesk_action_type lower query
      in if action_type = ustr ''categorize'' then operations CategorizeTicket
         else if action_type = ustr ''suggest_solution'' then operations SuggestSolution
         else if action_type = ustr ''list_tickets'' then operations ListTickets
         else operations GeneralInfo)"

definition helpdesk_manager_process ::
  "(pystr \<Rightarrow> pystr) \<Rightarrow> (helpdesk_operation \<Rightarrow> exn + pyval) \<Rightarrow> int \<Rightarrow> pystr \<Rightarrow> pystr \<Rightarrow> pyval" where
  "helpdesk_manager_process lower operations utcnow query user_id =
     (case helpdesk_manager_body lower operations query of
        Inr r \<Rightarrow> r
      | Inl e \<Rightarrow> recover HelpdeskManager utcnow query e)"

section \<open>Example environments\<close>

text \<open>
  A deployment whose document store refuses every operation, with no completion provider
  configured and responders that cannot be constructed.
\<close>

definition store_down :: exn where
  "store_down = Raised (ustr ''connection refused'')"

definition offline_env :: chatbot_env where
  "offline_env =
     \<lparr>cb_lower = ascii_lower,
      cb_title = (\<lambda>s. s),
      cb_repr = (\<lambda>v. []),
      cb_epoch_seconds = Inr 1700,
      cb_now_text = ustr ''November 14, 2023 at 10:13 PM'',
      cb_utcnow = (\<lambda>k. 1700000000000000 + int k),
      enable_conversation_memory = True,
      find_conversation_error = Some store_down,
      cb_find_user = (\<lambda>user_id. Inl store_down),
      update_conversation_error = Some store_down,
      cb_ai_type = None,
      cb_provider = (\<lambda>request. Inl (Raised (ustr ''no provider''))),
      cb_study_planner = (\<lambda>message user_id context. Inl (Raised (ustr ''agent unavailable''))),
      cb_assignment_manager =
        (\<lambda>message user_id context. Inl (Raised (ustr ''agent unavailable'')))\<rparr>"

text \<open>A stored conversation of twelve turns.\<close>

definition twelve_turns :: "turn list" where
  "twelve_turns =
     map (\<lambda>k. \<lparr>turn_role = (if even k then ustr ''user'' else ustr ''assistant''),
               turn_content = PInt (int k), turn_timestamp = int k\<rparr>) [0..<12]"

text \<open>
  An agent's surroundings in which the provider answers with a JSON object whose duration
  is spelled out in words, and the store holds three pending assignments due at 11, 13 and
  9 while the clock reads 10.
\<close>

definition spelled_duration :: pystr where
  "spelled_duration =
     ustr ''{'' @ quoted ''estimated_duration'' @ ustr '': '' @ quoted ''two weeks'' @ ustr ''}''"

definition three_assignments :: "pydict list" where
  "three_assignments =
     [[(ustr ''title'', PStr (ustr ''Essay'')), (ustr ''status'', PStr (ustr ''pending'')),
       (ustr ''dueDate'', PStr (ustr ''2024-05-11'')), (ustr ''priority'', PStr (ustr ''medium''))],
      [(ustr ''title'', PStr (ustr ''Lab report'')), (ustr ''status'', PStr (ustr ''pending'')),
       (ustr ''dueDate'', PStr (ustr ''2024-05-13'')), (ustr ''priority'', PStr (ustr ''high''))],
      [(ustr ''title'', PStr (ustr ''Quiz'')), (ustr ''status'', PStr (ustr ''pending'')),
       (ustr ''dueDate'', PStr (ustr ''2024-05-09'')), (ustr ''priority'', PStr (ustr ''high''))]]"

definition demo_env :: agent_env where
  "demo_env =
     \<lparr>ag_lower = ascii_lower,
      ag_title = (\<lambda>s. s),
      ag_repr = (\<lambda>v. []),
      ag_json_loads =
        (\<lambda>s. if s = spelled_duration
             then Some (PDict [(ustr ''estimated_duration'', PStr (ustr ''two weeks''))])
             else None),
      ag_fromisoformat =
        map_of [(ustr ''2024-05-11'', 11), (ustr ''2024-05-13'', 13), (ustr ''2024-05-09'', 9)],
      ag_strftime = (\<lambda>t. str_int t),
      ag_now = (\<lambda>k. 10),
      ag_utcnow = 10,
      ag_ai_type = Some OpenAI,
      ag_provider = (\<lambda>request. Inr spelled_duration),
      users_find_one = (\<lambda>user_id. Inr None),
      courses_find = (\<lambda>ids. Inr []),
      assignments_find = (\<lambda>user_id. Inr three_assignments),
      materials_find = (\<lambda>query. Inr []),
      plans_insert_one = (\<lambda>doc. Inr (PStr (ustr ''plan1'')))\<rparr>"

section \<open>Substring containment\<close>

lemma startswith_iff: "startswith s k \<longleftrightarrow> (\<exists>q. s = k @ q)"
  by (induction s k rule: startswith.induct) auto

lemma str_in_iff: "str_in k s \<longleftrightarrow> (\<exists>p q. s = p @ k @ q)"
proof (induction s)
  case Nil
  then show ?case by auto
next
  case (Cons c s)
  show ?case
  proof
    assume "str_in k (c # s)"
    then consider "startswith (c # s) k" | "str_in k s" by auto
    then show "\<exists>p q. c # s = p @ k @ q"
    proof cases
      case 1
      then obtain q where "c # s = k @ q" by (auto simp: startswith_iff)
      then have "c # s = [] @ k @ q" by simp
      then show ?thesis by blast
    next
      case 2
      then obtain p q where "s = p @ k @ q" using Cons.IH by blast
      then have "c # s = (c # p) @ k @ q" by simp
      then show ?thesis by blast
    qed
  next
    assume "\<exists>p q. c # s = p @ k @ q"
    then obtain p q where pq: "c # s = p @ k @ q" by blast
    show "str_in k (c # s)"
    proof (cases p)
      case Nil
      with pq have "startswith (c # s) k" by (auto simp: startswith_iff)
      then show ?thesis by simp
    next
      case (Cons d p')
      with pq have "s = p' @ k @ q" by simp
      then have "str_in k s" using Cons.IH by blast
      then show ?thesis by simp
    qed
  qed
qed

text \<open>
  C2. The action-intent classifier answers true exactly when the lower-cased message
  contains one of the fourteen action keywords as a contiguous substring, and false for
  every message that contains none of them.
\<close>

theorem detect_action_intent_iff:
  "detect_action_intent lower message \<longleftrightarrow>
     (\<exists>keyword p q.
        keyword \<in> set (map ustr
          [''create'', ''generate'', ''make'', ''show me'', ''find'', ''search'',
           ''enroll'', ''register'', ''add'', ''schedule'', ''plan'',
           ''list my'', ''what are my'', ''get my'']) \<and>
        lower message = p @ keyword @ q)"
  unfolding detect_action_intent_def action_keywords_def Let_def list_ex_iff str_in_iff
  by blast

theorem detect_action_intent_witness:
  "detect_action_intent ascii_lower (ustr ''Please CREATE a plan'') \<and>
   (\<exists>keyword p q.
      keyword \<in> set (map ustr
        [''create'', ''generate'', ''make'', ''show me'', ''find'', ''search'',
         ''enroll'', ''register'', ''add'', ''schedule'', ''plan'',
         ''list my'', ''what are my'', ''get my'']) \<and>
      ascii_lower (ustr ''Please CREATE a plan'') = p @ keyword @ q)"
proof -
  have "detect_action_intent ascii_lower (ustr ''Please CREATE a plan'')"
    by (simp add: detect_action_intent_def action_keywords_def ascii_lower_def ustr_def)
  then show ?thesis
    using detect_action_intent_iff [of ascii_lower "ustr ''Please CREATE a plan''"] by blast
qed

text \<open>
  C3. As stated the claim fails twice: a message with the word "study" but not the phrase
  "study plan" gets the placeholder reply, and a message with both "schedule" and
  "homework" goes to the planner. What holds: the planner is chosen when the lower-cased
  message contains "study plan", "learning plan" or "schedule"; otherwise the assignment
  manager when it contains "assignment", "homework" or "task"; otherwise the placeholder
  reply with an empty \<open>actions_performed\<close> list.
\<close>

theorem route_to_agent_dispatch:
  "route_to_agent lower planner assignment message user_id context =
     (if (\<exists>word p q. word \<in> set (map ustr [''study plan'', ''learning plan'', ''schedule'']) \<and>
            lower message = p @ word @ q)
      then planner message user_id context
      else if (\<exists>word p q. word \<in> set (map ustr [''assignment'', ''homework'', ''task'']) \<and>
            lower message = p @ word @ q)
      then assignment message user_id context
      else Inr (PDict
        [(ustr ''response'',
            PStr (ustr ''I can help you with that! Could you provide more details?'')),
         (ustr ''actions_performed'', PList [])]))"
  unfolding route_to_agent_def Let_def list_ex_iff str_in_iff Bex_def
  by (simp only: conj_commute ex_simps cong: if_cong)

theorem route_to_agent_witness:
  "route_to_agent ascii_lower (\<lambda>m u c. Inr (PStr (ustr ''planner'')))
       (\<lambda>m u c. Inr (PStr (ustr ''assignments'')))
       (ustr ''List my homework'') (ustr ''u1'') (PDict []) = Inr (PStr (ustr ''assignments''))"
proof -
  have a: "\<not> list_ex (\<lambda>word. str_in word (ascii_lower (ustr ''List my homework'')))
      (map ustr [''study plan'', ''learning plan'', ''schedule''])"
    by (simp add: ascii_lower_def ustr_def)
  have b: "list_ex (\<lambda>word. str_in word (ascii_lower (ustr ''List my homework'')))
      (map ustr [''assignment'', ''homework'', ''task''])"
    by (simp add: ascii_lower_def ustr_def)
  have a': "\<not> (\<exists>word p q.
        word \<in> set (map ustr [''study plan'', ''learning plan'', ''schedule'']) \<and>
        ascii_lower (ustr ''List my homework'') = p @ word @ q)"
    using a unfolding list_ex_iff str_in_iff by blast
  have b': "\<exists>word p q. word \<in> set (map ustr [''assignment'', ''homework'', ''task'']) \<and>
        ascii_lower (ustr ''List my homework'') = p @ word @ q"
    using b unfolding list_ex_iff str_in_iff by blast
  show ?thesis
    using route_to_agent_dispatch [of ascii_lower "\<lambda>m u c. Inr (PStr (ustr ''planner''))"
      "\<lambda>m u c. Inr (PStr (ustr ''assignments''))" "ustr ''List my homework''" "ustr ''u1''"
      "PDict []"]
      a' b'
    by (simp only: if_True if_False)
qed

theorem route_to_agent_counterexample:
  "detect_action_intent ascii_lower (ustr ''make a study guide'') \<and>
   list_ex (\<lambda>w. str_in w (ascii_lower (ustr ''make a study guide''))) spec_planner_vocabulary \<and>
   route_to_agent ascii_lower (\<lambda>m u c. Inr (PStr (ustr ''planner'')))
       (\<lambda>m u c. Inr (PStr (ustr ''assignments'')))
       (ustr ''make a study guide'') (ustr ''u1'') (PDict []) =
     Inr (PDict
        [(ustr ''response'',
            PStr (ustr ''I can help you with that! Could you provide more details?'')),
         (ustr ''actions_performed'', PList [])]) \<and>
   detect_action_intent ascii_lower (ustr ''schedule my homework'') \<and>
   str_in (ustr ''homework'') (ascii_lower (ustr ''schedule my homework'')) \<and>
   route_to_agent ascii_lower (\<lambda>m u c. Inr (PStr (ustr ''planner'')))
       (\<lambda>m u c. Inr (PStr (ustr ''assignments'')))
       (ustr ''schedule my homework'') (ustr ''u1'') (PDict []) = Inr (PStr (ustr ''planner''))"
  by (simp add: detect_action_intent_def action_keywords_def spec_planner_vocabulary_def
    route_to_agent_def ascii_lower_def ustr_def)

section \<open>The voice adapter's text\<close>











section \<open>Durations: rendering and parsing\<close>

lemma digit_not_space: "48 \<le> c \<Longrightarrow> c \<le> 57 \<Longrightarrow> \<not> isspace c"
  by (simp add: isspace_def)

lemma nat_digits_digits: "c \<in> set (nat_digits n) \<Longrightarrow> 48 \<le> c \<and> c \<le> 57"
proof (induction n rule: nat_digits.induct)
  case (1 n)
  show ?case
  proof (cases "n < 10")
    case True
    then show ?thesis using 1(2) by (simp add: nat_digits.simps [of n])
  next
    case False
    then have "c \<in> set (nat_digits (n div 10)) \<or> c = 48 + n mod 10"
      using 1(2) by (auto simp: nat_digits.simps [of n])
    then show ?thesis
    proof
      assume "c \<in> set (nat_digits (n div 10))"
      then show ?thesis using 1(1) False by simp
    next
      assume "c = 48 + n mod 10"
      moreover have "n mod 10 < 10" by simp
      ultimately show ?thesis by linarith
    qed
  qed
qed

lemma nat_digits_nonempty: "nat_digits n \<noteq> []"
  by (simp add: nat_digits.simps [of n])

lemma int_digits_snoc:
  "(\<And>c. c \<in> set s \<Longrightarrow> 48 \<le> c \<and> c \<le> 57) \<Longrightarrow> d < 10 \<Longrightarrow>
   int_digits acc (s @ [48 + d]) = map_option (\<lambda>v. 10 * v + d) (int_digits acc s)"
proof (induction s arbitrary: acc)
  case Nil
  then show ?case by (simp add: digit_val_def)
next
  case (Cons c s)
  have c: "48 \<le> c \<and> c \<le> 57" using Cons.prems(1) by simp
  have "int_digits (10 * acc + (c - 48)) (s @ [48 + d]) =
      map_option (\<lambda>v. 10 * v + d) (int_digits (10 * acc + (c - 48)) s)"
    using Cons.IH [of "10 * acc + (c - 48)"] Cons.prems by simp
  then show ?case using c by (simp add: digit_val_def)
qed

lemma int_unsigned_snoc:
  "(\<And>c. c \<in> set s \<Longrightarrow> 48 \<le> c \<and> c \<le> 57) \<Longrightarrow> s \<noteq> [] \<Longrightarrow> d < 10 \<Longrightarrow>
   int_unsigned (s @ [48 + d]) = map_option (\<lambda>v. 10 * v + d) (int_unsigned s)"
proof (cases s)
  case Nil
  assume "s \<noteq> []"
  with Nil show ?thesis by simp
next
  case (Cons c r)
  assume dig: "\<And>c. c \<in> set s \<Longrightarrow> 48 \<le> c \<and> c \<le> 57" and d: "d < 10"
  have c: "48 \<le> c \<and> c \<le> 57" using dig Cons by simp
  have "int_digits (c - 48) (r @ [48 + d]) = map_option (\<lambda>v. 10 * v + d) (int_digits (c - 48) r)"
    using int_digits_snoc [of r d "c - 48"] dig Cons d by simp
  then show ?thesis using Cons c by (simp add: int_unsigned_def digit_val_def)
qed

lemma int_unsigned_nat_digits: "int_unsigned (nat_digits n) = Some n"
proof (induction n rule: nat_digits.induct)
  case (1 n)
  show ?case
  proof (cases "n < 10")
    case True
    then show ?thesis by (simp add: nat_digits.simps [of n] int_unsigned_def digit_val_def)
  next
    case False
    have "int_unsigned (nat_digits (n div 10) @ [48 + n mod 10]) =
        map_option (\<lambda>v. 10 * v + n mod 10) (int_unsigned (nat_digits (n div 10)))"
      by (rule int_unsigned_snoc) (auto dest: nat_digits_digits simp: nat_digits_nonempty)
    then show ?thesis using False 1 by (simp add: nat_digits.simps [of n])
  qed
qed

lemma dropWhile_none: "(\<And>c. c \<in> set xs \<Longrightarrow> \<not> P c) \<Longrightarrow> dropWhile P xs = xs"
  by (cases xs) auto

lemma py_strip_id: "(\<And>c. c \<in> set s \<Longrightarrow> \<not> isspace c) \<Longrightarrow> py_strip s = s"
proof -
  assume a: "\<And>c. c \<in> set s \<Longrightarrow> \<not> isspace c"
  have 1: "dropWhile isspace s = s" using a by (rule dropWhile_none)
  have "dropWhile isspace (rev s) = rev s" by (rule dropWhile_none) (use a in simp)
  then show ?thesis using 1 by (simp add: py_strip_def)
qed

lemma py_int_str_int: "0 \<le> n \<Longrightarrow> py_int (str_int n) = Inr n"
proof -
  assume n: "0 \<le> n"
  let ?s = "nat_digits (nat n)"
  have dig: "\<And>c. c \<in> set ?s \<Longrightarrow> 48 \<le> c \<and> c \<le> 57" by (rule nat_digits_digits)
  then have strip: "py_strip ?s = ?s" by (intro py_strip_id) (auto dest: digit_not_space)
  obtain c r where s: "?s = c # r" using nat_digits_nonempty [of "nat n"] by (cases ?s) auto
  then have c: "48 \<le> c \<and> c \<le> 57" using dig by simp
  have "int_unsigned (c # r) = Some (nat n)" using int_unsigned_nat_digits [of "nat n"] s by simp
  then show ?thesis using n strip s c by (simp add: py_int_def str_int_def)
qed

lemma split_ws_word:
  "(\<And>c. c \<in> set s \<Longrightarrow> \<not> isspace c) \<Longrightarrow> split_ws w (s @ t) = split_ws (w @ s) t"
  by (induction s arbitrary: w) auto

lemma py_split_weeks:
  "0 \<le> n \<Longrightarrow> py_split (str_int n @ ustr '' weeks'') = [str_int n, ustr ''weeks'']"
proof -
  assume n: "0 \<le> n"
  let ?s = "nat_digits (nat n)"
  have ns: "\<And>c. c \<in> set ?s \<Longrightarrow> \<not> isspace c"
    using nat_digits_digits digit_not_space by blast
  have "split_ws [] (?s @ ustr '' weeks'') = split_ws ([] @ ?s) (ustr '' weeks'')"
    using ns by (rule split_ws_word)
  also have "\<dots> = [?s, ustr ''weeks'']"
    using nat_digits_nonempty [of "nat n"] by (simp add: ustr_def isspace_def)
  finally show ?thesis using n by (simp add: py_split_def str_int_def)
qed

lemma daily_task_fields:
  "\<exists>task. daily_task now goal week day = PDict task \<and>
     dict_get task (ustr ''type'') PNone = PStr (ustr ''study'') \<and>
     dict_get task (ustr ''priority'') PNone =
       PStr (if day < 3 then ustr ''high'' else ustr ''medium'')"
  by (simp add: daily_task_def dict_get_def ustr_def)

lemma study_phase_tasks:
  "\<exists>phase tasks. study_phase now goal week = PDict phase \<and>
     dict_get phase (ustr ''tasks'') PNone = PList tasks \<and> length tasks = 8 \<and>
     (\<forall>day<7. tasks ! day = daily_task now goal week day) \<and>
     (\<exists>task. tasks ! 7 = PDict task \<and>
        dict_get task (ustr ''type'') PNone = PStr (ustr ''assessment''))"
proof -
  let ?tasks = "map (daily_task now goal week) [0..<7]"
  have l: "length ?tasks = 7" by simp
  have "\<forall>day<7. (?tasks @ [x]) ! day = daily_task now goal week day" for x
    using l by (auto simp del: upt_Suc simp: nth_append)
  moreover have "(?tasks @ [x]) ! 7 = x" for x
    using l by (metis nth_append_length)
  ultimately show ?thesis
    unfolding study_phase_def Let_def
    by (simp add: dict_get_def ustr_def del: upt_Suc)
qed


section \<open>The study plan\<close>

lemma create_study_plan_phases_shared:
  assumes "0 \<le> n"
    and "py_get analysis (ustr ''estimated_duration'') (PStr (ustr ''2'')) =
           Inr (PStr (str_int n @ ustr '' weeks''))"
  shows "\<exists>plan phases.
      create_study_plan now goal context analysis = Inr (PDict plan) \<and>
      dict_get plan (ustr ''phases'') PNone = PList phases \<and>
      int (length phases) = n \<and>
      (\<forall>week<length phases. \<exists>phase tasks.
          phases ! week = PDict phase \<and>
          dict_get phase (ustr ''tasks'') PNone = PList tasks \<and>
          length tasks = 8 \<and>
          (\<forall>day<7. \<exists>task. tasks ! day = PDict task \<and>
              dict_get task (ustr ''type'') PNone = PStr (ustr ''study'') \<and>
              dict_get task (ustr ''priority'') PNone =
                PStr (if day < 3 then ustr ''high'' else ustr ''medium'')) \<and>
          (\<exists>task. tasks ! 7 = PDict task \<and>
              dict_get task (ustr ''type'') PNone = PStr (ustr ''assessment'')))"
proof -
  obtain a where a: "analysis = PDict a" using assms(2) by (cases analysis) auto
  let ?phases = "map (study_phase now goal) [0..<nat n]"
  let ?plan = "[(ustr ''goal'', PStr goal),
                (ustr ''phases'', PList ?phases),
                (ustr ''total_duration'', PStr (str_int n @ ustr '' weeks'')),
                (ustr ''key_topics'', dict_get a (ustr ''key_topics'') (PList [])),
                (ustr ''difficulty'',
                   dict_get a (ustr ''difficulty_level'') (PStr (ustr ''intermediate''))),
                (ustr ''created_at'', PDateTime (now (9 * nat n)))]"
  have plan: "create_study_plan now goal context analysis = Inr (PDict ?plan)"
    using assms a py_split_weeks [OF assms(1)] py_int_str_int [OF assms(1)]
    by (simp add: create_study_plan_def)
  have phases: "dict_get ?plan (ustr ''phases'') PNone = PList ?phases"
    by (simp add: dict_get_def ustr_def)
  have len: "int (length ?phases) = n" using assms(1) by simp
  have shape: "\<exists>phase tasks.
          ?phases ! week = PDict phase \<and>
          dict_get phase (ustr ''tasks'') PNone = PList tasks \<and>
          length tasks = 8 \<and>
          (\<forall>day<7. \<exists>task. tasks ! day = PDict task \<and>
              dict_get task (ustr ''type'') PNone = PStr (ustr ''study'') \<and>
              dict_get task (ustr ''priority'') PNone =
                PStr (if day < 3 then ustr ''high'' else ustr ''medium'')) \<and>
          (\<exists>task. tasks ! 7 = PDict task \<and>
              dict_get task (ustr ''type'') PNone = PStr (ustr ''assessment''))"
    if "week < length ?phases" for week
  proof -
    have nth: "?phases ! week = study_phase now goal week" using that by simp
    obtain phase tasks where p: "study_phase now goal week = PDict phase"
      "dict_get phase (ustr ''tasks'') PNone = PList tasks" "length tasks = 8"
      "\<forall>day<7. tasks ! day = daily_task now goal week day"
      "\<exists>task. tasks ! 7 = PDict task \<and>
          dict_get task (ustr ''type'') PNone = PStr (ustr ''assessment'')"
      using study_phase_tasks [of now goal week] by blast
    have "\<forall>day<7. \<exists>task. tasks ! day = PDict task \<and>
              dict_get task (ustr ''type'') PNone = PStr (ustr ''study'') \<and>
              dict_get task (ustr ''priority'') PNone =
                PStr (if day < 3 then ustr ''high'' else ustr ''medium'')"
      using p(4) daily_task_fields [of now goal week] by metis
    then show ?thesis using nth p(1,2,3,5) by auto
  qed
  show ?thesis
    using plan phases len shape by blast
qed



section \<open>A duration spelled in words\<close>

lemma spelled_parse: "extract_json spelled_duration = Inr spelled_duration"
  by (simp add: extract_json_def spelled_duration_def quoted_def ustr_def)

lemma two_weeks_value_error:
  "create_study_plan now goal c
     (PDict [(ustr ''estimated_duration'', PStr (ustr ''two weeks''))]) =
     Inl (ValueError (ustr ''invalid literal for int() with base 10''))"
  by (simp add: create_study_plan_def dict_get_def py_split_def py_int_def py_strip_def
    int_unsigned_def digit_val_def isspace_def ustr_def)

lemma spelled_analysis:
  "analyze_study_goal demo_env (ustr ''learn algebra'')
      (gather_user_context demo_env (ustr ''u1'')) =
      Inr (PDict [(ustr ''estimated_duration'', PStr (ustr ''two weeks''))])"
  by (simp add: analyze_study_goal_def analysis_system_prompt_def gather_user_context_def
    fetch_user_data_def fetch_courses_def fetch_assignments_def demo_env_def
    generate_ai_response_def parse_analysis_def spelled_parse dict_get_def)

lemma spelled_body:
  "study_planner_body demo_env (ustr ''learn algebra'') (ustr ''u1'') =
     Inl (ValueError (ustr ''invalid literal for int() with base 10''))"
  by (simp add: study_planner_body_def spelled_analysis two_weeks_value_error)

lemma demo_utcnow: "ag_utcnow demo_env = 10"
  by (simp add: demo_env_def)

lemma fallback_plan_two_phases:
  "\<exists>plan phases.
     create_study_plan now goal c (parse_analysis (E\<lparr>ag_json_loads := (\<lambda>s. None)\<rparr>) query answer) =
       Inr (PDict plan) \<and>
     dict_get plan (ustr ''phases'') PNone = PList phases \<and> length phases = 2"
proof -
  have s: "str_int 2 @ ustr '' weeks'' = ustr ''2 weeks''"
    by (simp add: str_int_def nat_digits.simps ustr_def)
  have f: "parse_analysis (E\<lparr>ag_json_loads := (\<lambda>s. None)\<rparr>) query answer = fallback_analysis query"
    by (simp add: parse_analysis_def split: sum.splits)
  have h: "py_get (fallback_analysis query) (ustr ''estimated_duration'') (PStr (ustr ''2'')) =
      Inr (PStr (str_int 2 @ ustr '' weeks''))"
    unfolding s by (simp add: fallback_analysis_def dict_get_def ustr_def)
  have "(0::int) \<le> 2" by simp
  from create_study_plan_phases_shared [OF this h, of now goal c]
  show ?thesis unfolding f by auto
qed

text \<open>
  C6. A duration that does not start with an integer, here "two weeks" inside a well-formed
  JSON answer, is not replaced by the default: \<open>int\<close> raises, \<open>_create_study_plan\<close> lets
  the exception through, and \<open>process\<close> answers with the fallback envelope, which holds no
  plan.
\<close>

theorem duration_in_words_fails:
  "create_study_plan now goal c
     (PDict [(ustr ''estimated_duration'', PStr (ustr ''two weeks''))]) =
     Inl (ValueError (ustr ''invalid literal for int() with base 10'')) \<and>
   study_planner_process demo_env (ustr ''learn algebra'') (ustr ''u1'') =
     recover StudyPlanner 10 (ustr ''learn algebra'')
       (ValueError (ustr ''invalid literal for int() with base 10'')) \<and>
   py_get (study_planner_process demo_env (ustr ''learn algebra'') (ustr ''u1''))
     (ustr ''data'') (PStr []) = Inr PNone"
proof -
  have p: "study_planner_process demo_env (ustr ''learn algebra'') (ustr ''u1'') =
     recover StudyPlanner 10 (ustr ''learn algebra'')
       (ValueError (ustr ''invalid literal for int() with base 10''))"
    by (simp add: study_planner_process_def spelled_body demo_utcnow)
  show ?thesis
    using two_weeks_value_error [of now goal c] p
    by (simp add: recover_def format_response_def dict_get_def ustr_def)
qed

section \<open>The router's boundary\<close>

lemmas chatbot_defs =
  process_message_def resolve_conversation_id_def message_steps_def
  get_conversation_history_def gather_context_def detect_action_intent_def action_keywords_def
  generate_conversational_response_def get_rule_based_response_def save_to_history_def
  route_to_agent_def failure_envelope_def chatbot_system_prompt_def build_request_def
  py_or_def dict_get_def ustr_def ascii_lower_def str_int_def nat_digits.simps Let_def
  last_n_def turn_message_def





section \<open>Conversation windows\<close>

lemma last_n_suffix: "\<exists>older. xs = older @ last_n n xs"
  unfolding last_n_def by (metis append_take_drop_id)

lemma last_n_length: "length (last_n n xs) \<le> n"
  unfolding last_n_def by simp

lemma last_n_4_6: "\<exists>older. xs = older @ last_n 4 xs \<and> length (last_n 4 xs) \<le> 6"
  using last_n_suffix[of xs 4] last_n_length[of 4 xs] by auto

lemma history_suffix:
  "\<exists>older. (case store (user_id, conv_id) of None \<Rightarrow> [] | Some messages \<Rightarrow> messages) =
      older @ get_conversation_history E store user_id conv_id"
  using last_n_suffix
  by (auto simp: get_conversation_history_def split: option.splits)

lemma history_length: "length (get_conversation_history E store user_id conv_id) \<le> 10"
  using last_n_length
  by (auto simp: get_conversation_history_def split: option.splits)

lemma save_appends:
  "\<exists>added. (case save_to_history E store user_id conv_id message response (user_id, conv_id) of
        None \<Rightarrow> [] | Some messages \<Rightarrow> messages) =
     (case store (user_id, conv_id) of None \<Rightarrow> [] | Some messages \<Rightarrow> messages) @ added"
  by (auto simp: save_to_history_def split: option.splits)

lemma request_window:
  "\<exists>older sent. history = older @ sent \<and> length sent \<le> 6 \<and>
     build_request E kind prompt history message =
       (case kind of
          OpenAI \<Rightarrow>
            ChatCompletion
              ([(ustr ''system'', PStr prompt)] @ map turn_message sent @
               [(ustr ''user'', PStr message)])
        | Gemini \<Rightarrow>
            GenerateContent
              (prompt @ [10, 10] @ ustr ''Conversation History:'' @ [10] @
               concat (map (\<lambda>msg. cb_title E (turn_role msg) @ ustr '': '' @
                                 py_str (cb_repr E) (turn_content msg) @ [10]) sent) @
               [10] @ ustr ''User: '' @ message @ [10] @ ustr ''Assistant:'')
        | Anthropic \<Rightarrow>
            MessagesCreate prompt (map turn_message sent @ [(ustr ''user'', PStr message)]))"
proof (cases kind)
  case OpenAI
  obtain older where "history = older @ last_n 6 history" using last_n_suffix by blast
  then show ?thesis using OpenAI last_n_length[of 6 history]
    by (intro exI[of _ older] exI[of _ "last_n 6 history"]) (simp add: build_request_def)
next
  case Gemini
  obtain older where "history = older @ last_n 4 history" "length (last_n 4 history) \<le> 6"
    using last_n_4_6 by blast
  then show ?thesis using Gemini
    by (intro exI[of _ older] exI[of _ "last_n 4 history"]) (simp add: build_request_def)
next
  case Anthropic
  obtain older where "history = older @ last_n 6 history" using last_n_suffix by blast
  then show ?thesis using Anthropic last_n_length[of 6 history]
    by (intro exI[of _ older] exI[of _ "last_n 6 history"]) (simp add: build_request_def)
qed

text \<open>
  C7. Whatever the provider, the request built for a conversational completion carries a
  suffix of the history of at most 6 turns, in the order of the history (oldest first).
  A history read returns a suffix of the stored messages of at most 10 turns, the last 10
  when memory is enabled and the store answers. Saving only appends to the stored
  messages, so the older turns stay in the store.
\<close>

theorem conversation_windows:
  "(\<exists>older sent. history = older @ sent \<and> length sent \<le> 6 \<and>
     build_request E kind prompt history message =
       (case kind of
          OpenAI \<Rightarrow>
            ChatCompletion
              ([(ustr ''system'', PStr prompt)] @ map turn_message sent @
               [(ustr ''user'', PStr message)])
        | Gemini \<Rightarrow>
            GenerateContent
              (prompt @ [10, 10] @ ustr ''Conversation History:'' @ [10] @
               concat (map (\<lambda>msg. cb_title E (turn_role msg) @ ustr '': '' @
                                 py_str (cb_repr E) (turn_content msg) @ [10]) sent) @
               [10] @ ustr ''User: '' @ message @ [10] @ ustr ''Assistant:'')
        | Anthropic \<Rightarrow>
            MessagesCreate prompt (map turn_message sent @ [(ustr ''user'', PStr message)]))) \<and>
   (\<exists>older. (case store (user_id, conv_id) of None \<Rightarrow> [] | Some messages \<Rightarrow> messages) =
      older @ get_conversation_history E store user_id conv_id) \<and>
   length (get_conversation_history E store user_id conv_id) \<le> 10 \<and>
   get_conversation_history
     (E\<lparr>enable_conversation_memory := True, find_conversation_error := None\<rparr>)
     store user_id conv_id =
       last_n 10 (case store (user_id, conv_id) of None \<Rightarrow> [] | Some messages \<Rightarrow> messages) \<and>
   (\<exists>added.
      (case save_to_history E store user_id conv_id message response (user_id, conv_id) of
         None \<Rightarrow> [] | Some messages \<Rightarrow> messages) =
      (case store (user_id, conv_id) of None \<Rightarrow> [] | Some messages \<Rightarrow> messages) @ added)"
  using request_window [of history E kind prompt message] history_suffix [of store user_id conv_id E]
    history_length [of E store user_id conv_id]
    save_appends [of E store user_id conv_id message response]
  by (simp add: get_conversation_history_def last_n_def split: option.splits)

theorem conversation_windows_witness:
  "get_conversation_history
     (offline_env\<lparr>enable_conversation_memory := True, find_conversation_error := None\<rparr>)
     [(ustr ''u1'', ustr ''c1'') \<mapsto> twelve_turns] (ustr ''u1'') (ustr ''c1'') =
     drop 2 twelve_turns \<and>
   build_request offline_env OpenAI (ustr ''be brief'') (drop 2 twelve_turns) (ustr ''thanks'') =
     ChatCompletion
       ([(ustr ''system'', PStr (ustr ''be brief''))] @
        map turn_message (drop 6 twelve_turns) @ [(ustr ''user'', PStr (ustr ''thanks''))])"
proof -
  have l: "length twelve_turns = 12" by (simp add: twelve_turns_def)
  have "get_conversation_history
     (offline_env\<lparr>enable_conversation_memory := True, find_conversation_error := None\<rparr>)
     [(ustr ''u1'', ustr ''c1'') \<mapsto> twelve_turns] (ustr ''u1'') (ustr ''c1'') =
       last_n 10 twelve_turns"
    using conversation_windows [of "drop 2 twelve_turns" offline_env OpenAI "ustr ''be brief''"
      "ustr ''thanks''" "[(ustr ''u1'', ustr ''c1'') \<mapsto> twelve_turns]" "ustr ''u1''" "ustr ''c1''"
      PNone]
    by simp
  then show ?thesis using l by (simp add: last_n_def build_request_def)
qed

section \<open>Envelopes of the agents\<close>

lemma format_response_fields:
  "py_get (format_response self utcnow response actions analysis data recommendations)
     (ustr ''success'') PNone = Inr (PBool True) \<and>
   py_get (format_response self utcnow response actions analysis data recommendations)
     (ustr ''agent_name'') PNone = Inr (PStr (agent_name self)) \<and>
   py_get (format_response self utcnow response actions analysis data recommendations)
     (ustr ''actions_performed'') PNone =
       Inr (PList (case actions of None \<Rightarrow> [] | Some a \<Rightarrow> a))"
  by (cases actions) (simp_all add: format_response_def dict_get_def ustr_def)

lemma agent_name_nonempty: "agent_name self \<noteq> []"
  by (cases self) (simp_all add: ustr_def)

lemma error_action_fields:
  "py_get (error_action e) (ustr ''type'') PNone = Inr (PStr (ustr ''error'')) \<and>
   py_get (error_action e) (ustr ''success'') PNone = Inr (PBool False) \<and>
   py_get (error_action e) (ustr ''message'') PNone = Inr (PStr (exn_str e))"
  by (simp add: error_action_def dict_get_def ustr_def)

text \<open>
  C9. Every envelope \<open>format_response\<close> builds has \<open>success\<close> true, the name of the agent,
  which is not empty, and a list under \<open>actions_performed\<close> (the empty list when no
  actions are given). Each of the four agents answers an exception of its \<open>try\<close> block
  with such an envelope: \<open>success\<close> is true there too, and the failure shows only as the
  single action of type "error", whose own \<open>success\<close> is false.
\<close>

theorem format_response_envelope:
  "py_get (format_response self utcnow response actions analysis data recommendations)
     (ustr ''success'') PNone = Inr (PBool True) \<and>
   py_get (format_response self utcnow response actions analysis data recommendations)
     (ustr ''agent_name'') PNone = Inr (PStr (agent_name self)) \<and>
   agent_name self \<noteq> [] \<and>
   py_get (format_response self utcnow response actions analysis data recommendations)
     (ustr ''actions_performed'') PNone =
       Inr (PList (case actions of None \<Rightarrow> [] | Some a \<Rightarrow> a)) \<and>
   py_get (recover self utcnow query e) (ustr ''success'') PNone = Inr (PBool True) \<and>
   py_get (recover self utcnow query e) (ustr ''agent_name'') PNone =
     Inr (PStr (agent_name self)) \<and>
   py_get (recover self utcnow query e) (ustr ''actions_performed'') PNone =
     Inr (PList [error_action e]) \<and>
   py_get (error_action e) (ustr ''type'') PNone = Inr (PStr (ustr ''error'')) \<and>
   py_get (error_action e) (ustr ''success'') PNone = Inr (PBool False) \<and>
   study_planner_process E query user_id =
     (case study_planner_body E query user_id of
        Inr r \<Rightarrow> r | Inl x \<Rightarrow> recover StudyPlanner (ag_utcnow E) query x) \<and>
   assignment_manager_process E query user_id =
     (case assignment_manager_body E query user_id of
        Inr r \<Rightarrow> r | Inl x \<Rightarrow> recover AssignmentManager (ag_utcnow E) query x) \<and>
   report_generator_process lower reports utcnow query user_id =
     (case report_generator_body lower reports query of
        Inr r \<Rightarrow> r | Inl x \<Rightarrow> recover ReportGenerator utcnow query x) \<and>
   helpdesk_manager_process lower operations utcnow query user_id =
     (case helpdesk_manager_body lower operations query of
        Inr r \<Rightarrow> r | Inl x \<Rightarrow> recover HelpdeskManager utcnow query x)"
  using format_response_fields [of self utcnow response actions analysis data recommendations]
    format_response_fields [of self utcnow "get_fallback_response self query"
      "Some [error_action e]" PNone PNone PNone]
    agent_name_nonempty [of self] error_action_fields [of e]
  by (simp add: recover_def study_planner_process_def assignment_manager_process_def
    report_generator_process_def helpdesk_manager_process_def)

theorem format_response_envelope_witness:
  "py_get (study_planner_process demo_env (ustr ''learn algebra'') (ustr ''u1''))
     (ustr ''success'') PNone = Inr (PBool True) \<and>
   py_get (study_planner_process demo_env (ustr ''learn algebra'') (ustr ''u1''))
     (ustr ''actions_performed'') PNone =
     Inr (PList [error_action (ValueError (ustr ''invalid literal for int() with base 10''))])"
  using format_response_envelope [of StudyPlanner 10 "[]" None PNone PNone PNone
      "ustr ''learn algebra''" "ValueError (ustr ''invalid literal for int() with base 10'')"
      demo_env "ustr ''u1''" ascii_lower "\<lambda>r. Inr PNone" "\<lambda>r. Inr PNone"]
  by (simp add: spelled_body demo_utcnow)

section \<open>The voice adapter's envelope\<close>

lemma process_voice_query_returns:
  assumes ctx: "context = PNone \<or> context = PDict d"
    and chat: "\<And>c. chatbot query user_id c = Inr (PDict (result c))"
    and resp: "\<And>c. dict_get (result c) (ustr ''response'') (PStr []) = PStr (reply c)"
  shows "\<exists>c. process_voice_query chatbot utcnow query user_id context =
           PDict
             [(ustr ''success'', PBool True),
              (ustr ''response'', PStr (format_for_voice (reply c))),
              (ustr ''actions_taken'', dict_get (result c) (ustr ''actions_taken'') (PList [])),
              (ustr ''voice_enabled'', PBool True),
              (ustr ''timestamp'', PDateTime utcnow)]"
proof -
  obtain d' where vc: "py_or context (PDict []) = PDict d'"
    using ctx by (cases "d = []") (auto simp: py_or_def)
  show ?thesis
    unfolding process_voice_query_def voice_body_def Let_def vc
    by (auto simp: chat resp)
qed

lemma voice_failure_iff:
  "py_get (process_voice_query chatbot utcnow query user_id context) (ustr ''success'') PNone =
     Inr (PBool False) \<longleftrightarrow> (\<exists>e. voice_body chatbot utcnow query user_id context = Inl e)"
proof (cases "voice_body chatbot utcnow query user_id context")
  case (Inl e)
  then show ?thesis by (simp add: process_voice_query_def dict_get_def)
next
  case (Inr r)
  then have "\<exists>a b c. r = PDict [(ustr ''success'', PBool True), (ustr ''response'', a),
      (ustr ''actions_taken'', b), (ustr ''voice_enabled'', PBool True), (ustr ''timestamp'', c)]"
    unfolding voice_body_def Let_def
    by (auto split: sum.splits)
  then show ?thesis using Inr by (auto simp: process_voice_query_def dict_get_def)
qed

text \<open>
  C10. When the context is a dict or absent and the chatbot returns a dict with a string
  response, without raising, \<open>process_voice_query\<close> returns \<open>success\<close> true with the
  response formatted for voice, whatever the chatbot's own \<open>success\<close> flag says. It
  returns \<open>success\<close> false exactly when an exception is raised inside its own \<open>try\<close> block.
\<close>

theorem process_voice_query_success:
  "((context = PNone \<or> context = PDict d) \<and>
    (\<forall>c. chatbot query user_id c = Inr (PDict (result c)) \<and>
         dict_get (result c) (ustr ''response'') (PStr []) = PStr (reply c)) \<longrightarrow>
    (\<exists>c. process_voice_query chatbot utcnow query user_id context =
           PDict
             [(ustr ''success'', PBool True),
              (ustr ''response'', PStr (format_for_voice (reply c))),
              (ustr ''actions_taken'', dict_get (result c) (ustr ''actions_taken'') (PList [])),
              (ustr ''voice_enabled'', PBool True),
              (ustr ''timestamp'', PDateTime utcnow)])) \<and>
   (py_get (process_voice_query chatbot utcnow query user_id context) (ustr ''success'') PNone =
      Inr (PBool False) \<longleftrightarrow>
    (\<exists>e. voice_body chatbot utcnow query user_id context = Inl e))"
  using process_voice_query_returns [of "context" d chatbot query user_id result reply utcnow]
    voice_failure_iff [of chatbot utcnow query user_id "context"]
  by blast

theorem process_voice_query_witness:
  "py_get (fst (process_message offline_env Map.empty (ustr ''create a study plan'') (ustr ''u1'')
       (PDict [(ustr ''input_type'', PStr (ustr ''voice'')),
               (ustr ''requires_concise_response'', PBool True)]) None))
     (ustr ''success'') PNone = Inr (PBool False) \<and>
   process_voice_query
     (\<lambda>q u c. Inr (fst (process_message offline_env Map.empty q u c None)))
     7 (ustr ''create a study plan'') (ustr ''u1'') PNone =
     PDict
       [(ustr ''success'', PBool True),
        (ustr ''response'',
           PStr (ustr ''I apologize, but I encountered an error. Please try again.'')),
        (ustr ''actions_taken'', PList []),
        (ustr ''voice_enabled'', PBool True),
        (ustr ''timestamp'', PDateTime 7)]"
proof -
  let ?chat = "\<lambda>q u c. Inr (fst (process_message offline_env Map.empty q u c None))"
  let ?result = "\<lambda>c::pyval.
    [(ustr ''success'', PBool False),
     (ustr ''response'',
        PStr (ustr ''I apologize, but I encountered an error. Please try again.'')),
     (ustr ''conversation_id'', PStr (ustr ''u1_1700'')),
     (ustr ''timestamp'', PDateTime 1700000000000005)]"
  let ?reply = "\<lambda>c::pyval. ustr ''I apologize, but I encountered an error. Please try again.''"
  have chat: "?chat (ustr ''create a study plan'') (ustr ''u1'') c = Inr (PDict (?result c))" for c
    by (simp add: chatbot_defs offline_env_def)
  have resp: "dict_get (?result c) (ustr ''response'') (PStr []) = PStr (?reply c)" for c
    by (simp add: dict_get_def ustr_def)
  have fmt: "format_for_voice (ustr ''I apologize, but I encountered an error. Please try again.'') =
      ustr ''I apologize, but I encountered an error. Please try again.''"
    by (simp add: format_for_voice_def strip_markup_def ustr_def)
  have "\<exists>c. process_voice_query ?chat 7 (ustr ''create a study plan'') (ustr ''u1'') PNone =
           PDict
             [(ustr ''success'', PBool True),
              (ustr ''response'', PStr (format_for_voice (?reply c))),
              (ustr ''actions_taken'', dict_get (?result c) (ustr ''actions_taken'') (PList [])),
              (ustr ''voice_enabled'', PBool True),
              (ustr ''timestamp'', PDateTime 7)]"
  proof -
    have hyp: "(PNone = PNone \<or> PNone = PDict []) \<and>
      (\<forall>c. ?chat (ustr ''create a study plan'') (ustr ''u1'') c = Inr (PDict (?result c)) \<and>
           dict_get (?result c) (ustr ''response'') (PStr []) = PStr (?reply c))"
      by (intro conjI allI disjI1 refl chat resp)
    from process_voice_query_success [of PNone "[]" ?chat "ustr ''create a study plan''"
        "ustr ''u1''" ?result ?reply 7, THEN conjunct1, rule_format, OF hyp]
    show ?thesis .
  qed
  then have v: "process_voice_query ?chat 7 (ustr ''create a study plan'') (ustr ''u1'') PNone =
           PDict
             [(ustr ''success'', PBool True),
              (ustr ''response'',
                 PStr (ustr ''I apologize, but I encountered an error. Please try again.'')),
              (ustr ''actions_taken'', PList []),
              (ustr ''voice_enabled'', PBool True),
              (ustr ''timestamp'', PDateTime 7)]"
    unfolding fmt by (simp add: dict_get_def ustr_def)
  have "py_get (fst (process_message offline_env Map.empty (ustr ''create a study plan'')
       (ustr ''u1'')
       (PDict [(ustr ''input_type'', PStr (ustr ''voice'')),
               (ustr ''requires_concise_response'', PBool True)]) None))
     (ustr ''success'') PNone = Inr (PBool False)"
    by (simp add: chatbot_defs offline_env_def)
  then show ?thesis using v by simp
qed

section \<open>Listing assignments\<close>

lemma sort_keys_length: "sort_keys f now k xs = Inr keys \<Longrightarrow> length keys = length xs"
  by (induction xs arbitrary: k keys) (auto split: sum.splits)

lemma sort_keys_nth:
  "sort_keys f now k xs = Inr keys \<Longrightarrow> i < length xs \<Longrightarrow>
   due_date f (now (k + i)) (xs ! i) = Inr (fst (keys ! i)) \<and>
   priority_rank (xs ! i) = Inr (snd (keys ! i))"
proof (induction xs arbitrary: k keys i)
  case Nil
  then show ?case by simp
next
  case (Cons a xs)
  from Cons.prems(1) obtain d r keys' where
    d: "due_date f (now k) a = Inr d" and r: "priority_rank a = Inr r" and
    ks: "sort_keys f now (k + 1) xs = Inr keys'" and keys: "keys = (d, r) # keys'"
    by (auto split: sum.splits)
  show ?case
  proof (cases i)
    case 0
    then show ?thesis using d r keys by simp
  next
    case (Suc j)
    then have "j < length xs" using Cons.prems(2) by simp
    from Cons.IH [OF ks this] show ?thesis using Suc keys by simp
  qed
qed

lemma overdue_from_enumerate:
  "overdue_from f now k xs = Inr ov \<Longrightarrow>
   ov = map snd (filter (\<lambda>(i, a). \<exists>d. due_date f (now (k + 2 * i)) a = Inr d \<and>
                                      d < now (k + 2 * i + 1)) (enumerate 0 xs))"
proof (induction xs arbitrary: k ov)
  case Nil
  then show ?case by simp
next
  case (Cons a xs)
  from Cons.prems obtain d ov' where
    d: "due_date f (now k) a = Inr d" and
    o: "overdue_from f now (k + 2) xs = Inr ov'" and
    ov: "ov = (if d < now (k + 1) then a # ov' else ov')"
    by (auto split: sum.splits)
  have "ov' = map snd (filter (\<lambda>(i, a). \<exists>d. due_date f (now (k + 2 + 2 * i)) a = Inr d \<and>
                                      d < now (k + 2 + 2 * i + 1)) (enumerate 0 xs))"
    using Cons.IH [OF o] .
  also have "\<dots> = map snd (filter (\<lambda>(i, a). \<exists>d. due_date f (now (k + 2 * i)) a = Inr d \<and>
                                      d < now (k + 2 * i + 1)) (enumerate (Suc 0) xs))"
    by (simp add: enumerate_Suc_eq filter_map o_def split_def add.assoc)
  finally show ?case using d ov by simp
qed

lemma prioritize_sorted:
  "length keys = length xs \<Longrightarrow>
   sorted (map fst (sort_key fst (zip keys xs))) \<and>
   mset (map snd (sort_key fst (zip keys xs))) = mset xs \<and>
   (\<forall>key. filter (\<lambda>p. fst p = key) (sort_key fst (zip keys xs)) =
          filter (\<lambda>p. fst p = key) (zip keys xs))"
proof -
  assume l: "length keys = length xs"
  have "mset (map snd (sort_key fst (zip keys xs))) = image_mset snd (mset (sort_key fst (zip keys xs)))"
    by simp
  also have "\<dots> = image_mset snd (mset (zip keys xs))" by simp
  also have "\<dots> = mset (map snd (zip keys xs))" by simp
  also have "\<dots> = mset xs" using l by simp
  finally show ?thesis by (simp add: sort_key_stable)
qed

lemma priority_rank_values:
  "(map_of a (ustr ''priority'') = None \<longrightarrow> priority_rank a = Inr 1) \<and>
   (map_of a (ustr ''priority'') = Some (PStr (ustr ''high'')) \<longrightarrow> priority_rank a = Inr 0) \<and>
   (map_of a (ustr ''priority'') = Some (PStr (ustr ''medium'')) \<longrightarrow> priority_rank a = Inr 1) \<and>
   (map_of a (ustr ''priority'') = Some (PStr (ustr ''low'')) \<longrightarrow> priority_rank a = Inr 2)"
  by (simp add: priority_rank_def dict_get_def ustr_def)

lemma list_assignments_shared:
  assumes "fetch_assignments E user_id \<noteq> []"
    and "list_assignments E user_id query = Inr envelope"
  shows "\<exists>keys overdue.
     (let pending = filter is_pending (fetch_assignments E user_id);
          prioritized = map snd (sort_key fst (zip keys pending))
      in sort_keys (ag_fromisoformat E) (ag_now E) (2 * length pending) pending = Inr keys \<and>
         length keys = length pending \<and>
         (\<forall>i<length pending.
            due_date (ag_fromisoformat E) (ag_now E (2 * length pending + i)) (pending ! i) =
              Inr (fst (keys ! i)) \<and>
            priority_rank (pending ! i) = Inr (snd (keys ! i))) \<and>
         sorted (map fst (sort_key fst (zip keys pending))) \<and>
         mset prioritized = mset pending \<and>
         (\<forall>key. filter (\<lambda>p. fst p = key) (sort_key fst (zip keys pending)) =
                filter (\<lambda>p. fst p = key) (zip keys pending)) \<and>
         py_get envelope (ustr ''data'') PNone =
           Inr (PDict [(ustr ''assignments'', PList (map PDict (take 10 prioritized)))]) \<and>
         overdue =
           map snd (filter (\<lambda>(i, a). \<exists>d. due_date (ag_fromisoformat E) (ag_now E (2 * i)) a = Inr d \<and>
                                          d < ag_now E (2 * i + 1)) (enumerate 0 pending)) \<and>
         py_get envelope (ustr ''analysis'') PNone =
           Inr (PDict
             [(ustr ''total'', PInt (int (length (fetch_assignments E user_id)))),
              (ustr ''pending'', PInt (int (length pending))),
              (ustr ''completed'',
                 PInt (int (length (filter is_completed (fetch_assignments E user_id))))),
              (ustr ''overdue'', PInt (int (length overdue)))]))"
proof -
  let ?pending = "filter is_pending (fetch_assignments E user_id)"
  from assms obtain overdue prioritized top_lines where
    ov: "overdue_from (ag_fromisoformat E) (ag_now E) 0 ?pending = Inr overdue" and
    pr: "prioritize (ag_fromisoformat E) (ag_now E) (2 * length ?pending) ?pending = Inr prioritized" and
    env: "envelope = format_response AssignmentManager (ag_utcnow E)
       (concat
                       [[128221], ustr '' **Assignment Dashboard**'', [10, 10],
                        ustr ''**'', [128202], ustr '' Overview:**'', [10],
                        [8226], ustr '' Total Assignments: '', str_int (int (length (fetch_assignments E user_id))), [10],
                        [8226], ustr '' Pending: '', str_int (int (length ?pending)), [10],
                        [8226], ustr '' Completed: '', str_int (int (length (filter is_completed (fetch_assignments E user_id)))), [10],
                        [8226], ustr '' '', [9888, 65039], ustr '' Overdue: '',
                          str_int (int (length overdue)), [10, 10],
                        ustr ''**'', [127919], ustr '' Top Priority Assignments:**'', [10],
                        py_join [10] top_lines, [10, 10],
                        ustr ''**'', [128161], ustr '' Recommendations:**'', [10],
                        [8226], ustr '' Focus on overdue assignments first'', [10],
                        [8226], ustr '' Allocate time for high-priority tasks'', [10],
                        [8226], ustr '' Break down large assignments into smaller tasks'', [10, 10],
                        ustr ''Need help with any specific assignment? Just ask!''])
       (Some
                       [PDict
                          [(ustr ''type'', PStr (ustr ''assignments_analyzed'')),
                           (ustr ''count'', PInt (int (length (fetch_assignments E user_id)))),
                           (ustr ''success'', PBool True)]])
       (PDict
                       [(ustr ''total'', PInt (int (length (fetch_assignments E user_id)))),
                        (ustr ''pending'', PInt (int (length ?pending))),
                        (ustr ''completed'', PInt (int (length (filter is_completed (fetch_assignments E user_id))))),
                        (ustr ''overdue'', PInt (int (length overdue)))])
       (PDict [(ustr ''assignments'', PList (map PDict (take 10 prioritized)))])
       PNone"
    unfolding list_assignments_def Let_def
    by (auto split: sum.splits)
  from pr obtain keys where
    ks: "sort_keys (ag_fromisoformat E) (ag_now E) (2 * length ?pending) ?pending = Inr keys" and
    p: "prioritized = map snd (sort_key fst (zip keys ?pending))"
    by (auto simp: prioritize_def split: sum.splits)
  have l: "length keys = length ?pending" using ks by (rule sort_keys_length)
  have data: "py_get envelope (ustr ''data'') PNone =
      Inr (PDict [(ustr ''assignments'', PList (map PDict (take 10 prioritized)))])"
    unfolding env by (simp add: format_response_def dict_get_def ustr_def)
  have an: "py_get envelope (ustr ''analysis'') PNone =
           Inr (PDict
             [(ustr ''total'', PInt (int (length (fetch_assignments E user_id)))),
              (ustr ''pending'', PInt (int (length ?pending))),
              (ustr ''completed'',
                 PInt (int (length (filter is_completed (fetch_assignments E user_id))))),
              (ustr ''overdue'', PInt (int (length overdue)))])"
    unfolding env by (simp add: format_response_def dict_get_def ustr_def)
  have nth: "\<forall>i<length ?pending.
            due_date (ag_fromisoformat E) (ag_now E (2 * length ?pending + i)) (?pending ! i) =
              Inr (fst (keys ! i)) \<and>
            priority_rank (?pending ! i) = Inr (snd (keys ! i))"
    using sort_keys_nth [OF ks] by blast
  have od: "overdue =
           map snd (filter (\<lambda>(i, a). \<exists>d. due_date (ag_fromisoformat E) (ag_now E (2 * i)) a = Inr d \<and>
                                          d < ag_now E (2 * i + 1)) (enumerate 0 ?pending))"
    using overdue_from_enumerate [OF ov] by simp
  show ?thesis
    unfolding Let_def
    using ks l nth prioritize_sorted [OF l] data an od p
    by (intro exI [of _ keys] exI [of _ overdue]) simp
qed


text \<open>
  C5. When the user has assignments and the listing returns, the pending assignments are
  sorted by the pair (due timestamp, priority rank), ascending and stably: the list under
  \<open>data\<close> is the first ten of them. The rank is 0 for "high", 1 for "medium", 2 for "low"
  and 1 when the priority is missing. The overdue count is the number of pending
  assignments whose due timestamp is before the clock reading of the comparison; the sort
  key does not depend on it. The witness has due dates 11, 13 and 9 with the clock at 10:
  the order is 9, 11, 13 and one item is overdue.
\<close>

theorem list_assignments_prioritized:
  assumes "fetch_assignments E user_id \<noteq> []"
    and "list_assignments E user_id query = Inr envelope"
  shows "(\<exists>keys overdue.
     (let pending = filter is_pending (fetch_assignments E user_id);
          prioritized = map snd (sort_key fst (zip keys pending))
      in sort_keys (ag_fromisoformat E) (ag_now E) (2 * length pending) pending = Inr keys \<and>
         length keys = length pending \<and>
         (\<forall>i<length pending.
            due_date (ag_fromisoformat E) (ag_now E (2 * length pending + i)) (pending ! i) =
              Inr (fst (keys ! i)) \<and>
            priority_rank (pending ! i) = Inr (snd (keys ! i))) \<and>
         sorted (map fst (sort_key fst (zip keys pending))) \<and>
         mset prioritized = mset pending \<and>
         (\<forall>key. filter (\<lambda>p. fst p = key) (sort_key fst (zip keys pending)) =
                filter (\<lambda>p. fst p = key) (zip keys pending)) \<and>
         py_get envelope (ustr ''data'') PNone =
           Inr (PDict [(ustr ''assignments'', PList (map PDict (take 10 prioritized)))]) \<and>
         overdue =
           map snd (filter (\<lambda>(i, a). \<exists>d. due_date (ag_fromisoformat E) (ag_now E (2 * i)) a = Inr d \<and>
                                          d < ag_now E (2 * i + 1)) (enumerate 0 pending)) \<and>
         py_get envelope (ustr ''analysis'') PNone =
           Inr (PDict
             [(ustr ''total'', PInt (int (length (fetch_assignments E user_id)))),
              (ustr ''pending'', PInt (int (length pending))),
              (ustr ''completed'',
                 PInt (int (length (filter is_completed (fetch_assignments E user_id))))),
              (ustr ''overdue'', PInt (int (length overdue)))]))) \<and>
   (map_of a (ustr ''priority'') = None \<longrightarrow> priority_rank a = Inr 1) \<and>
   (map_of a (ustr ''priority'') = Some (PStr (ustr ''high'')) \<longrightarrow> priority_rank a = Inr 0) \<and>
   (map_of a (ustr ''priority'') = Some (PStr (ustr ''medium'')) \<longrightarrow> priority_rank a = Inr 1) \<and>
   (map_of a (ustr ''priority'') = Some (PStr (ustr ''low'')) \<longrightarrow> priority_rank a = Inr 2)"
  using list_assignments_shared [OF assms] priority_rank_values [of a] by blast

lemma demo_fetch: "fetch_assignments demo_env (ustr ''u1'') = three_assignments"
  by (simp add: fetch_assignments_def demo_env_def)

lemma demo_pending: "filter is_pending three_assignments = three_assignments"
  by (simp add: three_assignments_def is_pending_def dict_get_def ustr_def)

lemma demo_fromiso:
  "ag_fromisoformat demo_env =
     map_of [(ustr ''2024-05-11'', 11), (ustr ''2024-05-13'', 13), (ustr ''2024-05-09'', 9)]"
  "ag_now demo_env = (\<lambda>k. 10)"
  by (simp_all add: demo_env_def)

lemma demo_keys:
  "sort_keys (ag_fromisoformat demo_env) (ag_now demo_env) 6 three_assignments =
     Inr [(11, 1), (13, 0), (9, 0)]"
  unfolding demo_fromiso
  by (simp add: three_assignments_def due_date_def priority_rank_def dict_get_def ustr_def)

lemma demo_overdue:
  "overdue_from (ag_fromisoformat demo_env) (ag_now demo_env) 0 three_assignments =
     Inr [three_assignments ! 2]"
  unfolding demo_fromiso
  by (simp add: three_assignments_def due_date_def dict_get_def ustr_def)

lemma demo_sorted:
  "map snd (sort_key fst (zip [(11 :: int, 1 :: nat), (13, 0), (9, 0)] three_assignments)) =
     [three_assignments ! 2, three_assignments ! 0, three_assignments ! 1]"
  by (simp add: three_assignments_def)

lemma demo_prioritized:
  "prioritize (ag_fromisoformat demo_env) (ag_now demo_env) 6 three_assignments =
     Inr [three_assignments ! 2, three_assignments ! 0, three_assignments ! 1]"
  unfolding prioritize_def demo_keys by (simp only: sum.case demo_sorted)

lemma demo_lines:
  "\<exists>ls. priority_lines demo_env k i
      [three_assignments ! 2, three_assignments ! 0, three_assignments ! 1] = Inr ls"
  by (simp add: three_assignments_def due_date_def demo_fromiso dict_get_def ustr_def)

lemma demo_listing:
  "\<exists>envelope. list_assignments demo_env (ustr ''u1'') (ustr ''list my assignments'') = Inr envelope"
proof -
  obtain ls where ls: "priority_lines demo_env 9 0
      [three_assignments ! 2, three_assignments ! 0, three_assignments ! 1] = Inr ls"
    using demo_lines by blast
  have n: "three_assignments \<noteq> []" "length three_assignments = 3"
    by (simp_all add: three_assignments_def)
  show ?thesis
    unfolding list_assignments_def Let_def demo_fetch demo_pending
    using n ls by (simp add: demo_prioritized demo_overdue)
qed

theorem list_assignments_witness:
  "\<exists>envelope.
     list_assignments demo_env (ustr ''u1'') (ustr ''list my assignments'') = Inr envelope \<and>
     py_get envelope (ustr ''data'') PNone =
       Inr (PDict [(ustr ''assignments'',
          PList (map PDict [three_assignments ! 2, three_assignments ! 0, three_assignments ! 1]))]) \<and>
     py_get envelope (ustr ''analysis'') PNone =
       Inr (PDict
         [(ustr ''total'', PInt 3), (ustr ''pending'', PInt 3), (ustr ''completed'', PInt 0),
          (ustr ''overdue'', PInt 1)])"
proof -
  obtain envelope where
    e: "list_assignments demo_env (ustr ''u1'') (ustr ''list my assignments'') = Inr envelope"
    using demo_listing by blast
  have n: "fetch_assignments demo_env (ustr ''u1'') \<noteq> []"
    by (simp add: demo_fetch three_assignments_def)
  have c: "filter is_completed three_assignments = []"
    by (simp add: three_assignments_def is_completed_def dict_get_def ustr_def)
  have l: "length three_assignments = 3" by (simp add: three_assignments_def)
  from list_assignments_prioritized [OF n e, of "[]"]
  obtain keys overdue where
    k: "sort_keys (ag_fromisoformat demo_env) (ag_now demo_env)
          (2 * length three_assignments) three_assignments = Inr keys" and
    d: "py_get envelope (ustr ''data'') PNone =
          Inr (PDict [(ustr ''assignments'',
            PList (map PDict (take 10 (map snd (sort_key fst (zip keys three_assignments))))))])" and
    o: "overdue =
          map snd (filter (\<lambda>(i, a). \<exists>d. due_date (ag_fromisoformat demo_env)
              (ag_now demo_env (2 * i)) a = Inr d \<and> d < ag_now demo_env (2 * i + 1))
            (enumerate 0 three_assignments))" and
    an: "py_get envelope (ustr ''analysis'') PNone =
          Inr (PDict
            [(ustr ''total'', PInt (int (length three_assignments))),
             (ustr ''pending'', PInt (int (length three_assignments))),
             (ustr ''completed'', PInt (int (length (filter is_completed three_assignments)))),
             (ustr ''overdue'', PInt (int (length overdue)))])"
    unfolding Let_def demo_fetch demo_pending by blast
  have keys: "keys = [(11, 1), (13, 0), (9, 0)]" using k demo_keys l by simp
  have ov: "overdue = [three_assignments ! 2]"
    using o overdue_from_enumerate [OF demo_overdue] by simp
  have data: "py_get envelope (ustr ''data'') PNone =
       Inr (PDict [(ustr ''assignments'',
          PList (map PDict [three_assignments ! 2, three_assignments ! 0, three_assignments ! 1]))])"
    using d unfolding keys demo_sorted by simp
  have "py_get envelope (ustr ''analysis'') PNone =
       Inr (PDict
         [(ustr ''total'', PInt 3), (ustr ''pending'', PInt 3), (ustr ''completed'', PInt 0),
          (ustr ''overdue'', PInt 1)])"
    using an unfolding ov by (simp add: l c)
  then show ?thesis using e data by blast
qed

end
